theory Spec2Isabelle
  imports Complex_Main "HOL-Library.Sublist" "HOL-Library.AList"
begin

section \<open>Python values read from the cluster CLI\<close>

text \<open>
  \<^verbatim>\<open>tools/stack_health.py\<close> inspects the values that \<^verbatim>\<open>json.loads\<close> returns: None, booleans,
  integers, floats, strings, lists and dicts with string keys. A dict is an association
  list (a lookup sees the first binding of a key; a Python dict is the case of distinct
  keys). A float is a rational, an infinity or a NaN: the script only tests floats for
  truth and converts them with \<^verbatim>\<open>int()\<close>. Text is a HOL string, one \<open>char\<close> per code point
  below 256.
\<close>

datatype pyfloat = FNum rat | FInf | FNaN

datatype json =
    JNull
  | JBool bool
  | JInt int
  | JFloat pyfloat
  | JStr string
  | JList "json list"
  | JObj "(string \<times> json) list"

text \<open>
  The exceptions of class \<^verbatim>\<open>Exception\<close> that the script can meet. \<open>LibError\<close> is any
  exception raised by the operating system or a library call (\<^verbatim>\<open>OSError\<close>, socket and TLS
  errors, \<^verbatim>\<open>UnicodeDecodeError\<close>), with its message \<^verbatim>\<open>str(e)\<close>.
\<close>

datatype exn =
    RuntimeError string
  | KeyError json
  | IndexError
  | AttributeError
  | TypeError
  | ValueError
  | OverflowError
  | JSONDecodeError
  | LibError string

definition bindE :: "exn + 'a \<Rightarrow> ('a \<Rightarrow> exn + 'b) \<Rightarrow> exn + 'b" where
  "bindE m f = (case m of Inl e \<Rightarrow> Inl e | Inr x \<Rightarrow> f x)"

text \<open>Truth value of a Python object (\<^verbatim>\<open>if x\<close>, \<^verbatim>\<open>x or y\<close>, \<^verbatim>\<open>all\<close>).\<close>

fun truthy :: "json \<Rightarrow> bool" where
  "truthy JNull = False"
| "truthy (JBool b) = b"
| "truthy (JInt n) = (n \<noteq> 0)"
| "truthy (JFloat f) = (case f of FNum r \<Rightarrow> r \<noteq> 0 | FInf \<Rightarrow> True | FNaN \<Rightarrow> True)"
| "truthy (JStr s) = (s \<noteq> [])"
| "truthy (JList xs) = (xs \<noteq> [])"
| "truthy (JObj kv) = (kv \<noteq> [])"

text \<open>\<^verbatim>\<open>x.get(k, d)\<close>: only a dict has the method.\<close>

fun py_get :: "json \<Rightarrow> string \<Rightarrow> json \<Rightarrow> exn + json" where
  "py_get (JObj kv) k d = Inr (case map_of kv k of Some v \<Rightarrow> v | None \<Rightarrow> d)"
| "py_get _ k d = Inl AttributeError"

text \<open>\<^verbatim>\<open>x[k]\<close> with a string key \<open>k\<close>.\<close>

fun py_item :: "json \<Rightarrow> string \<Rightarrow> exn + json" where
  "py_item (JObj kv) k = (case map_of kv k of Some v \<Rightarrow> Inr v | None \<Rightarrow> Inl (KeyError (JStr k)))"
| "py_item _ k = Inl TypeError"

text \<open>
  \<^verbatim>\<open>for c in x\<close>: a list gives its elements, a dict its keys, a string its characters;
  nothing else is iterable.
\<close>

fun py_iter :: "json \<Rightarrow> exn + json list" where
  "py_iter (JList xs) = Inr xs"
| "py_iter (JObj kv) = Inr (map (\<lambda>p. JStr (fst p)) kv)"
| "py_iter (JStr s) = Inr (map (\<lambda>c. JStr [c]) s)"
| "py_iter _ = Inl TypeError"

section \<open>The pod readiness predicate\<close>

text \<open>
  \<^verbatim>\<open>all(c.get("ready") for c in cs)\<close> stops at the first entry whose value is false, and
  raises when an entry has no \<^verbatim>\<open>get\<close>.
\<close>

fun all_ready :: "json list \<Rightarrow> exn + bool" where
  "all_ready [] = Inr True"
| "all_ready (c # cs) =
     bindE (py_get c ''ready'' JNull) (\<lambda>r. if truthy r then all_ready cs else Inr False)"

text \<open>The body of the \<^verbatim>\<open>try\<close> block of \<^verbatim>\<open>pod_ready\<close>.\<close>

definition pod_ready_try :: "json \<Rightarrow> exn + bool" where
  "pod_ready_try pod =
     bindE (py_get pod ''status'' (JObj [])) (\<lambda>st.
     bindE (py_get st ''phase'' JNull) (\<lambda>ph.
       if ph \<noteq> JStr ''Running'' then Inr False
       else
         bindE (py_get pod ''status'' (JObj [])) (\<lambda>st2.
         bindE (py_get st2 ''containerStatuses'' JNull) (\<lambda>v.
         let cs = (if truthy v then v else JList []) in
         bindE (py_iter cs) (\<lambda>entries.
         bindE (all_ready entries) (\<lambda>a.
           Inr (a \<and> length entries > 0)))))))"

definition pod_ready :: "json \<Rightarrow> bool" where
  "pod_ready pod = (case pod_ready_try pod of Inl e \<Rightarrow> False | Inr b \<Rightarrow> b)"

section \<open>Text\<close>

text \<open>
  \<^verbatim>\<open>str.strip()\<close> removes the characters for which \<^verbatim>\<open>str.isspace\<close> holds; below 256 these are
  the code points 9 to 13, 28 to 32, 133 and 160.
\<close>

definition is_space :: "char \<Rightarrow> bool" where
  "is_space c = ((of_char c :: nat) \<in> {9, 10, 11, 12, 13, 28, 29, 30, 31, 32, 133, 160})"

definition strip :: "string \<Rightarrow> string" where
  "strip s = rev (dropWhile is_space (rev (dropWhile is_space s)))"

definition lower_char :: "char \<Rightarrow> char" where
  "lower_char c =
     (let n = (of_char c :: nat)
      in if (65 \<le> n \<and> n \<le> 90) \<or> (192 \<le> n \<and> n \<le> 222 \<and> n \<noteq> 215) then char_of (n + 32) else c)"

definition lower :: "string \<Rightarrow> string" where
  "lower s = map lower_char s"

text \<open>\<^verbatim>\<open>n in h\<close> on strings.\<close>

definition str_in :: "string \<Rightarrow> string \<Rightarrow> bool" where
  "str_in n h = sublist n h"

text \<open>\<^verbatim>\<open>a or b\<close> on strings.\<close>

definition or_str :: "string \<Rightarrow> string \<Rightarrow> string" where
  "or_str a b = (if a \<noteq> [] then a else b)"

text \<open>
  \<^verbatim>\<open>str.splitlines()\<close>: a line ends at a carriage return followed by a line feed, or at
  one of the code points 10 to 13, 28 to 30 and 133; the line ends are dropped and a
  final line end opens no further line.
\<close>

definition is_linebreak :: "char \<Rightarrow> bool" where
  "is_linebreak c = ((of_char c :: nat) \<in> {10, 11, 12, 13, 28, 29, 30, 133})"

fun splitlines_from :: "string \<Rightarrow> string \<Rightarrow> string list" where
  "splitlines_from cur [] = (if cur = [] then [] else [rev cur])"
| "splitlines_from cur (c # cs) =
     (if c = CHR 0x0D \<and> cs \<noteq> [] \<and> hd cs = CHR 0x0A then rev cur # splitlines_from [] (tl cs)
      else if is_linebreak c then rev cur # splitlines_from [] cs
      else splitlines_from (c # cur) cs)"

definition splitlines :: "string \<Rightarrow> string list" where
  "splitlines s = splitlines_from [] s"

text \<open>\<^verbatim>\<open>str(n)\<close> of an integer, in decimal.\<close>

fun str_nat :: "nat \<Rightarrow> string" where
  "str_nat n = (if n < 10 then [char_of (48 + n)] else str_nat (n div 10) @ [char_of (48 + n mod 10)])"

definition str_int :: "int \<Rightarrow> string" where
  "str_int i = (if i < 0 then CHR ''-'' # str_nat (nat (- i)) else str_nat (nat i))"

text \<open>The shell quoting that the command lines put around the kubeconfig path.\<close>

definition quoted :: "string \<Rightarrow> string" where
  "quoted s = CHR 0x27 # s @ [CHR 0x27]"

section \<open>Effects\<close>

text \<open>
  What the script does to the outside is a sequence of effects, in program order: the
  calls of its four printing helpers and of \<^verbatim>\<open>print\<close>, the three statements
  \<^verbatim>\<open>passed += 1\<close>, \<^verbatim>\<open>failed += 1\<close> and \<^verbatim>\<open>warned += 1\<close>, and \<^verbatim>\<open>p.kill()\<close>. A message is the
  list of the pieces of an f-string: literal text and strings (\<open>S\<close>), and the
  interpolated integers, JSON values, exceptions and colour or icon constants.
\<close>

datatype symbol = GREEN | RED | YELLOW | CYAN | RESET | CHECK | CROSS | WARN

datatype frag = S string | I int | J json | E exn | Sym symbol

type_synonym msg = "frag list"

datatype effect =
    Ok msg
  | Fail msg
  | Warn msg
  | Info msg
  | Print msg
  | IncPassed
  | IncFailed
  | IncWarned
  | Kill

text \<open>The line each printing call writes (\<^verbatim>\<open>ok\<close>, \<^verbatim>\<open>fail\<close>, \<^verbatim>\<open>warn\<close>, \<^verbatim>\<open>info\<close>, \<^verbatim>\<open>print\<close>).\<close>

fun line_of :: "effect \<Rightarrow> msg option" where
  "line_of (Ok m) = Some ([Sym GREEN, Sym CHECK, S '' ''] @ m @ [Sym RESET])"
| "line_of (Fail m) = Some ([Sym RED, Sym CROSS, S '' ''] @ m @ [Sym RESET])"
| "line_of (Warn m) = Some ([Sym YELLOW, Sym WARN, S '' ''] @ m @ [Sym RESET])"
| "line_of (Info m) = Some ([Sym CYAN] @ m @ [Sym RESET])"
| "line_of (Print m) = Some m"
| "line_of _ = None"

text \<open>The standard output and the three counters of \<^verbatim>\<open>main\<close>.\<close>

record tally =
  stdout :: "msg list"
  passed :: int
  failed :: int
  warned :: int

definition start :: tally where
  "start = \<lparr>stdout = [], passed = 0, failed = 0, warned = 0\<rparr>"

fun exec :: "effect \<Rightarrow> tally \<Rightarrow> tally" where
  "exec IncPassed s = s\<lparr>passed := passed s + 1\<rparr>"
| "exec IncFailed s = s\<lparr>failed := failed s + 1\<rparr>"
| "exec IncWarned s = s\<lparr>warned := warned s + 1\<rparr>"
| "exec Kill s = s"
| "exec e s = (case line_of e of Some l \<Rightarrow> s\<lparr>stdout := stdout s @ [l]\<rparr> | None \<Rightarrow> s)"

definition run_from :: "tally \<Rightarrow> effect list \<Rightarrow> tally" where
  "run_from s es = foldl (\<lambda>s e. exec e s) s es"

definition run :: "effect list \<Rightarrow> tally" where
  "run es = run_from start es"

text \<open>
  A computation gives the effects it had and then an exception or a result. An
  exception keeps the effects that came before it.
\<close>

type_synonym 'a comp = "effect list \<times> (exn + 'a)"

definition ret :: "'a \<Rightarrow> 'a comp" where
  "ret x = ([], Inr x)"

definition raise :: "exn \<Rightarrow> 'a comp" where
  "raise e = ([], Inl e)"

definition lift :: "exn + 'a \<Rightarrow> 'a comp" where
  "lift r = ([], r)"

definition emits :: "effect list \<Rightarrow> unit comp" where
  "emits es = (es, Inr ())"

definition bindC :: "'a comp \<Rightarrow> ('a \<Rightarrow> 'b comp) \<Rightarrow> 'b comp" where
  "bindC m f =
     (case m of
        (t, Inl e) \<Rightarrow> (t, Inl e)
      | (t, Inr x) \<Rightarrow> (case f x of (t', r) \<Rightarrow> (t @ t', r)))"

text \<open>\<^verbatim>\<open>try: m except Exception as e: h\<close>, for a handler that only prints and counts.\<close>

definition try_except :: "'a comp \<Rightarrow> (exn \<Rightarrow> effect list) \<Rightarrow> effect list" where
  "try_except m h = (case m of (t, Inl e) \<Rightarrow> t @ h e | (t, Inr x) \<Rightarrow> t)"

section \<open>The outside world\<close>

text \<open>
  The file system, the child processes, the network and the resolver answer the
  script's requests; within one run equal requests get equal answers. The library
  functions whose results the script only passes on are fields too: \<^verbatim>\<open>json.loads\<close>
  (\<open>None\<close> when it raises), \<^verbatim>\<open>int\<close> on a string (\<open>None\<close> when it raises) and
  \<^verbatim>\<open>bytes.decode("utf-8", errors="ignore")\<close>.
\<close>

datatype 'a outcome = Raises string | Returns 'a

text \<open>
  A child process: \<^verbatim>\<open>Popen\<close> raises, or \<^verbatim>\<open>communicate\<close> returns the two streams and the
  process has its return code, or \<^verbatim>\<open>communicate\<close> raises \<^verbatim>\<open>TimeoutExpired\<close>, or it raises
  something else.
\<close>

datatype proc = SpawnFails string | Completes int string string | TimesOut | CommFails string

text \<open>
  One HTTP exchange (connect, request, response head, \<^verbatim>\<open>read(2000)\<close>, close): some step
  raises, or the response has a status, a reason and the bytes read.
\<close>

datatype http = HttpRaises string | HttpResponds int string string

record env =
  isfile :: "string \<Rightarrow> bool"
  read_text :: "string \<Rightarrow> string outcome"
  popen :: "string \<Rightarrow> int \<Rightarrow> proc"
  json_loads :: "string \<Rightarrow> json option"
  int_of_str :: "string \<Rightarrow> int option"
  http_get :: "bool \<Rightarrow> string \<Rightarrow> nat \<Rightarrow> int \<Rightarrow> string \<Rightarrow> string \<Rightarrow> http"
  decode_ignore :: "string \<Rightarrow> string"
  gethostbyname :: "string \<Rightarrow> string outcome"

section \<open>Command runner, structured query and HTTP probe\<close>

definition sh :: "env \<Rightarrow> string \<Rightarrow> int \<Rightarrow> (int \<times> string \<times> string) comp" where
  "sh w cmd timeout =
     (case popen w cmd timeout of
        SpawnFails m \<Rightarrow> raise (LibError m)
      | CommFails m \<Rightarrow> raise (LibError m)
      | TimesOut \<Rightarrow> ([Kill], Inr (124, [], ''timeout after '' @ str_int timeout @ ''s''))
      | Completes rc out err \<Rightarrow> ret (rc, strip out, strip err))"

definition loads :: "env \<Rightarrow> string \<Rightarrow> exn + json" where
  "loads w out = (case json_loads w out of None \<Rightarrow> Inl JSONDecodeError | Some j \<Rightarrow> Inr j)"

definition kubectl_json :: "env \<Rightarrow> string \<Rightarrow> string \<Rightarrow> json comp" where
  "kubectl_json w args kubeconfig =
     bindC (sh w (''KUBECONFIG='' @ quoted kubeconfig @ '' kubectl '' @ args @ '' -o json'') 40)
       (\<lambda>(rc, out, err).
          if rc \<noteq> 0 then raise (RuntimeError (''kubectl '' @ args @ '' failed: '' @ or_str err out))
          else lift (loads w out))"

text \<open>The body of the \<^verbatim>\<open>try\<close> block of \<^verbatim>\<open>http_probe\<close>, up to the response being read.\<close>

definition http_exchange :: "env \<Rightarrow> string \<Rightarrow> string \<Rightarrow> string \<Rightarrow> string \<Rightarrow> int \<Rightarrow> http" where
  "http_exchange w addr host scheme path timeout =
     (if scheme = ''https'' then http_get w True addr 443 timeout path host
      else http_get w False addr 80 timeout path host)"

definition http_probe ::
  "env \<Rightarrow> string \<Rightarrow> string \<Rightarrow> string \<Rightarrow> string \<Rightarrow> int \<Rightarrow> bool \<times> int \<times> string \<times> string" where
  "http_probe w addr host scheme path timeout =
     (case http_exchange w addr host scheme path timeout of
        HttpResponds status reason data \<Rightarrow>
          (100 \<le> status \<and> status < 500, status, reason, decode_ignore w data)
      | HttpRaises m \<Rightarrow> (False, 0, m, []))"

section \<open>Further operations on Python values\<close>

text \<open>\<^verbatim>\<open>x[0]\<close>. The keys of a dict read from JSON are strings, so \<open>0\<close> is never a key.\<close>

fun py_index0 :: "json \<Rightarrow> exn + json" where
  "py_index0 (JList xs) = (case xs of [] \<Rightarrow> Inl IndexError | x # _ \<Rightarrow> Inr x)"
| "py_index0 (JStr s) = (case s of [] \<Rightarrow> Inl IndexError | c # _ \<Rightarrow> Inr (JStr [c]))"
| "py_index0 (JObj kv) = Inl (KeyError (JInt 0))"
| "py_index0 _ = Inl TypeError"

text \<open>Lists and dicts cannot be keys of a dict.\<close>

fun hashable :: "json \<Rightarrow> bool" where
  "hashable (JList xs) = False"
| "hashable (JObj kv) = False"
| "hashable _ = True"

text \<open>\<^verbatim>\<open>x.startswith(k)\<close>: only a string has the method.\<close>

fun py_startswith :: "json \<Rightarrow> string \<Rightarrow> exn + bool" where
  "py_startswith (JStr s) k = Inr (prefix k s)"
| "py_startswith _ k = Inl AttributeError"

text \<open>\<^verbatim>\<open>k in x\<close> for a string \<open>k\<close>: a substring of a string, an element of a list, a key of a dict.\<close>

fun py_contains :: "string \<Rightarrow> json \<Rightarrow> exn + bool" where
  "py_contains k (JStr s) = Inr (str_in k s)"
| "py_contains k (JList xs) = Inr (JStr k \<in> set xs)"
| "py_contains k (JObj kv) = Inr (k \<in> set (map fst kv))"
| "py_contains k _ = Inl TypeError"

text \<open>\<^verbatim>\<open>int(x)\<close>: a float is cut towards zero.\<close>

fun py_int :: "env \<Rightarrow> json \<Rightarrow> exn + int" where
  "py_int w (JInt n) = Inr n"
| "py_int w (JBool b) = Inr (if b then 1 else 0)"
| "py_int w (JFloat f) =
     (case f of
        FNum r \<Rightarrow> Inr (if 0 \<le> r then \<lfloor>r\<rfloor> else \<lceil>r\<rceil>)
      | FInf \<Rightarrow> Inl OverflowError
      | FNaN \<Rightarrow> Inl ValueError)"
| "py_int w (JStr s) = (case int_of_str w s of None \<Rightarrow> Inl ValueError | Some n \<Rightarrow> Inr n)"
| "py_int w _ = Inl TypeError"

section \<open>The arguments and the check sections of main\<close>

text \<open>The parsed command line (\<^verbatim>\<open>args = parser.parse_args()\<close>); a run starts after it.\<close>

record args =
  args_kubeconfig :: string
  args_ip :: string
  args_argocd :: string
  args_grafana :: string
  args_whoami :: string
  args_https :: bool

subsection \<open>Kubeconfig\<close>

text \<open>\<^verbatim>\<open>next((l for l in cfg.splitlines() if "server: " in l), "")\<close>\<close>

definition server_line :: "string \<Rightarrow> string" where
  "server_line cfg = (case filter (str_in ''server: '') (splitlines cfg) of [] \<Rightarrow> [] | l # ls \<Rightarrow> l)"

text \<open>
  Lines 106 to 122. The file is opened and read outside every \<^verbatim>\<open>try\<close>: an exception of
  \<^verbatim>\<open>open\<close> or \<^verbatim>\<open>read\<close> leaves the block.
\<close>

definition check_kubeconfig :: "env \<Rightarrow> args \<Rightarrow> unit comp" where
  "check_kubeconfig w a =
     (if isfile w (args_kubeconfig a) then
        bindC (emits [Ok [S ''kubeconfig found at '', S (args_kubeconfig a)]]) (\<lambda>u.
        bindC (case read_text w (args_kubeconfig a) of
                 Raises m \<Rightarrow> raise (LibError m)
               | Returns cfg \<Rightarrow> ret cfg) (\<lambda>cfg.
          if str_in ''127.0.0.1:6443'' (server_line cfg) then
            emits [Warn [S ''kubeconfig still points to https://127.0.0.1:6443 (will still try using it)''],
                   IncWarned]
          else
            emits [Ok [S ''kubeconfig server: '', S (or_str (strip (server_line cfg)) ''<unknown>'')]]))
      else
        emits [Fail [S ''kubeconfig missing: '', S (args_kubeconfig a)],
               IncFailed,
               Print [S (CHR 0x0A # ''Please run:'')],
               Print [S (''  sudo sed -i 's#https://127'' @ [CHR 0x5C] @ ''.0'' @ [CHR 0x5C] @ ''.0''
                           @ [CHR 0x5C] @ ''.1:6443#https://''),
                      S (args_ip a), S '':6443#' '', S (args_kubeconfig a)],
               Print []])"

subsection \<open>API readiness\<close>

definition check_readyz :: "env \<Rightarrow> args \<Rightarrow> effect list" where
  "check_readyz w a =
     try_except
       (bindC (sh w (''KUBECONFIG='' @ quoted (args_kubeconfig a)
                      @ '' kubectl get --raw='/readyz' 2>/dev/null'') 20)
          (\<lambda>(rc, out, err).
             if rc = 0 \<and> str_in ''ok'' (lower out) then
               emits [Ok [S ''API /readyz: OK''], IncPassed]
             else
               emits [Fail [S ''API /readyz: not ready ('', S (or_str err out), S '')''], IncFailed]))
       (\<lambda>e. [Fail [S ''API /readyz: error ('', E e, S '')''], IncFailed])"

subsection \<open>Node health\<close>

text \<open>
  \<^verbatim>\<open>{a["type"]: a["address"] for a in ...}\<close>: the bindings in the order they are stored; a
  later binding of a key replaces an earlier one, so a lookup takes the last.
\<close>

fun addresses_dict :: "json list \<Rightarrow> exn + (json \<times> json) list" where
  "addresses_dict [] = Inr []"
| "addresses_dict (x # xs) =
     bindE (py_item x ''type'') (\<lambda>k.
     bindE (py_item x ''address'') (\<lambda>v.
       if hashable k then bindE (addresses_dict xs) (\<lambda>r. Inr ((k, v) # r))
       else Inl TypeError))"

definition dict_get :: "(json \<times> json) list \<Rightarrow> string \<Rightarrow> json \<Rightarrow> json" where
  "dict_get d k dflt = (case filter (\<lambda>p. fst p = JStr k) d of [] \<Rightarrow> dflt | p # ps \<Rightarrow> snd (last (p # ps)))"

text \<open>The loop over the node's conditions, from the current value of \<^verbatim>\<open>ready\<close>.\<close>

fun ready_loop :: "bool \<Rightarrow> json list \<Rightarrow> exn + bool" where
  "ready_loop ready [] = Inr ready"
| "ready_loop ready (cond # conds) =
     bindE (py_get cond ''type'' JNull) (\<lambda>t.
       if t = JStr ''Ready'' then
         bindE (py_get cond ''status'' JNull) (\<lambda>s. ready_loop (s = JStr ''True'') conds)
       else ready_loop ready conds)"

definition check_nodes :: "env \<Rightarrow> args \<Rightarrow> effect list" where
  "check_nodes w a =
     try_except
       (bindC (kubectl_json w ''get nodes'' (args_kubeconfig a)) (\<lambda>node_json.
        bindC (lift (py_get node_json ''items'' (JList []))) (\<lambda>items.
          if \<not> truthy items then
            emits [Fail [S ''No nodes returned by API''], IncFailed]
          else
            bindC (lift (py_index0 items)) (\<lambda>node.
            bindC (lift (bindE (py_item node ''metadata'') (\<lambda>m. py_item m ''name''))) (\<lambda>name.
            bindC (lift (bindE (py_item node ''status'') (\<lambda>s.
                         bindE (py_item s ''addresses'') (\<lambda>ad.
                         bindE (py_iter ad) addresses_dict)))) (\<lambda>addresses.
            let internal_ip = dict_get addresses ''InternalIP'' (JStr ''<missing>'') in
            bindC (lift (bindE (py_get node ''status'' (JObj [])) (\<lambda>s.
                         bindE (py_get s ''conditions'' (JList [])) (\<lambda>cs.
                         bindE (py_iter cs) (ready_loop False))))) (\<lambda>ready.
            bindC (if ready then
                     emits [Ok [S ''Node '', J name, S '' Ready=True''], IncPassed]
                   else
                     emits [Fail [S ''Node '', J name, S '' not Ready''], IncFailed]) (\<lambda>u.
              if internal_ip = JStr (args_ip a) then
                emits [Ok [S ''Node InternalIP='', J internal_ip, S '' (expected)''], IncPassed]
              else
                emits [Fail [S ''Node InternalIP='', J internal_ip, S '' (expected '', S (args_ip a), S '')''],
                       IncFailed]))))))))
       (\<lambda>e. [Fail [S ''kubectl get nodes failed: '', E e], IncFailed])"

subsection \<open>Core kube-system pods\<close>

definition need0 :: "(string \<times> bool) list" where
  "need0 = [(''coredns'', False), (''traefik'', False), (''metrics-server'', False),
            (''local-path-provisioner'', False)]"

text \<open>The inner loop \<^verbatim>\<open>for key in list(need.keys())\<close> for one pod.\<close>

fun mark_keys :: "json \<Rightarrow> json \<Rightarrow> string list \<Rightarrow> (string \<times> bool) list \<Rightarrow> exn + (string \<times> bool) list" where
  "mark_keys name p [] need = Inr need"
| "mark_keys name p (key # keys) need =
     bindE (py_startswith name key) (\<lambda>b.
       mark_keys name p keys (if b \<and> pod_ready p then AList.update key True need else need))"

text \<open>The outer loop \<^verbatim>\<open>for p in sys_pods\<close>.\<close>

fun scan_pods :: "json list \<Rightarrow> (string \<times> bool) list \<Rightarrow> exn + (string \<times> bool) list" where
  "scan_pods [] need = Inr need"
| "scan_pods (p # ps) need =
     bindE (bindE (py_item p ''metadata'') (\<lambda>m. py_item m ''name'')) (\<lambda>name.
     bindE (mark_keys name p (map fst need) need) (\<lambda>need'.
       scan_pods ps need'))"

text \<open>The loop \<^verbatim>\<open>for comp, is_ok in need.items()\<close>.\<close>

definition report_core :: "(string \<times> bool) list \<Rightarrow> effect list" where
  "report_core need =
     concat (map (\<lambda>(comp, is_ok).
                    if is_ok then [Ok [S comp, S '' Running/Ready''], IncPassed]
                    else [Fail [S comp, S '' not Ready''], IncFailed]) need)"

definition check_core_pods :: "env \<Rightarrow> args \<Rightarrow> effect list" where
  "check_core_pods w a =
     try_except
       (bindC (kubectl_json w ''-n kube-system get pods'' (args_kubeconfig a)) (\<lambda>j.
        bindC (lift (py_get j ''items'' (JList []))) (\<lambda>sys_pods.
        bindC (lift (bindE (py_iter sys_pods) (\<lambda>ps. scan_pods ps need0))) (\<lambda>need.
          emits (report_core need)))))
       (\<lambda>e. [Fail [S ''Failed to read kube-system pods: '', E e], IncFailed])"

subsection \<open>Namespaces\<close>

definition check_namespace :: "env \<Rightarrow> args \<Rightarrow> string \<Rightarrow> effect list" where
  "check_namespace w a ns =
     try_except
       (bindC (sh w (''KUBECONFIG='' @ quoted (args_kubeconfig a) @ '' kubectl get ns '' @ ns) 20)
          (\<lambda>(rc, out, err).
             if rc = 0 then
               emits [Ok [S ''Namespace '', S ns, S '' exists''], IncPassed]
             else
               emits [Warn [S ''Namespace '', S ns, S '' missing (may be expected if not installed)''],
                      IncWarned]))
       (\<lambda>e. [Warn [S ''Namespace '', S ns, S '' check failed''], IncWarned])"

definition check_namespaces :: "env \<Rightarrow> args \<Rightarrow> effect list" where
  "check_namespaces w a =
     concat (map (check_namespace w a) [''argocd'', ''monitoring'', ''logging'', ''default''])"

subsection \<open>Deployments and ingress probes\<close>

text \<open>
  \<^verbatim>\<open>avail = d.get("status", {}).get("availableReplicas", 0)\<close> and the test
  \<^verbatim>\<open>avail and int(avail) > 0\<close>.
\<close>

definition available :: "env \<Rightarrow> json \<Rightarrow> exn + bool" where
  "available w d =
     bindE (py_get d ''status'' (JObj [])) (\<lambda>s.
     bindE (py_get s ''availableReplicas'' (JInt 0)) (\<lambda>avail.
       if truthy avail then bindE (py_int w avail) (\<lambda>n. Inr (0 < n)) else Inr False))"

definition check_argocd :: "env \<Rightarrow> args \<Rightarrow> effect list" where
  "check_argocd w a =
     try_except
       (bindC (sh w (''KUBECONFIG='' @ quoted (args_kubeconfig a)
                      @ '' kubectl -n argocd get deploy argocd-server -o json'') 20)
          (\<lambda>(rc, out, err).
        bindC (if rc = 0 then
                 bindC (lift (loads w out)) (\<lambda>d.
                 bindC (lift (available w d)) (\<lambda>av.
                   if av then emits [Ok [S ''argocd-server deployment Available''], IncPassed]
                   else emits [Fail [S ''argocd-server deployment not Available''], IncFailed]))
               else
                 emits [Fail [S ''argocd-server deployment not found ('', S err, S '')''], IncFailed]) (\<lambda>u.
        bindC (case http_probe w (args_ip a) (args_argocd a) ''http'' ''/'' 6 of
                 (alive, code, reason, body) \<Rightarrow>
                   if alive then
                     emits [Ok [S ''HTTP probe argocd ('', S (args_argocd a), S '') -> '', I code, S '' '',
                                S reason], IncPassed]
                   else
                     emits [Fail [S ''HTTP probe argocd failed: '', S reason], IncFailed]) (\<lambda>u.
          if args_https a then
            (case http_probe w (args_ip a) (args_argocd a) ''https'' ''/'' 6 of
               (alive, code, reason, body) \<Rightarrow>
                 if alive then
                   emits [Ok [S ''HTTPS probe argocd ('', S (args_argocd a), S '') -> '', I code, S '' '',
                              S reason], IncPassed]
                 else
                   emits [Fail [S ''HTTPS probe argocd failed: '', S reason], IncFailed])
          else ret ()))))
       (\<lambda>e. [Fail [S ''ArgoCD check error: '', E e], IncFailed])"

definition check_monitoring :: "env \<Rightarrow> args \<Rightarrow> effect list" where
  "check_monitoring w a =
     try_except
       (bindC (sh w (''KUBECONFIG='' @ quoted (args_kubeconfig a)
                      @ '' kubectl -n monitoring get deploy kube-prometheus-stack-grafana -o json'') 20)
          (\<lambda>(rc, out, err).
        bindC (if rc = 0 then
                 bindC (lift (loads w out)) (\<lambda>d.
                 bindC (lift (available w d)) (\<lambda>av.
                   if av then emits [Ok [S ''Grafana deployment Available''], IncPassed]
                   else emits [Fail [S ''Grafana deployment not Available''], IncFailed]))
               else
                 emits [Fail [S ''Grafana deployment not found ('', S err, S '')''], IncFailed]) (\<lambda>u.
        bindC (sh w (''KUBECONFIG='' @ quoted (args_kubeconfig a)
                      @ '' kubectl -n monitoring get deploy kube-prometheus-stack-operator -o json'') 20)
          (\<lambda>(rc, out, err).
        bindC (if rc = 0 then
                 bindC (lift (loads w out)) (\<lambda>d.
                 bindC (lift (available w d)) (\<lambda>av.
                   if av then emits [Ok [S ''Prometheus Operator Available''], IncPassed]
                   else emits [Warn [S ''Prometheus Operator not Available yet''], IncWarned]))
               else
                 emits [Warn [S ''Prometheus Operator deployment not found''], IncWarned]) (\<lambda>u.
        bindC (case http_probe w (args_ip a) (args_grafana a) ''http'' ''/'' 6 of
                 (alive, code, reason, body) \<Rightarrow>
                   if alive then
                     emits [Ok [S ''HTTP probe grafana ('', S (args_grafana a), S '') -> '', I code, S '' '',
                                S reason], IncPassed]
                   else
                     emits [Fail [S ''HTTP probe grafana failed: '', S reason], IncFailed]) (\<lambda>u.
          if args_https a then
            (case http_probe w (args_ip a) (args_grafana a) ''https'' ''/'' 6 of
               (alive, code, reason, body) \<Rightarrow>
                 if alive then
                   emits [Ok [S ''HTTPS probe grafana ('', S (args_grafana a), S '') -> '', I code, S '' '',
                              S reason], IncPassed]
                 else
                   emits [Fail [S ''HTTPS probe grafana failed: '', S reason], IncFailed])
          else ret ()))))))
       (\<lambda>e. [Fail [S ''Monitoring check error: '', E e], IncFailed])"

subsection \<open>Loki and Promtail\<close>

text \<open>
  The two \<^verbatim>\<open>any(...)\<close> over the pods: each stops at the first pod that qualifies, and
  raises when a pod before that one cannot be inspected.
\<close>

fun any_loki :: "json list \<Rightarrow> exn + bool" where
  "any_loki [] = Inr False"
| "any_loki (p # ps) =
     bindE (bindE (py_item p ''metadata'') (\<lambda>m. py_item m ''name'')) (\<lambda>name.
     bindE (py_startswith name ''loki'') (\<lambda>b.
       if b \<and> pod_ready p then Inr True else any_loki ps))"

fun any_promtail :: "json list \<Rightarrow> exn + bool" where
  "any_promtail [] = Inr False"
| "any_promtail (p # ps) =
     bindE (bindE (py_item p ''metadata'') (\<lambda>m. py_item m ''name'')) (\<lambda>name.
     bindE (py_contains ''promtail'' name) (\<lambda>b.
       if b \<and> pod_ready p then Inr True else any_promtail ps))"

definition check_logging :: "env \<Rightarrow> args \<Rightarrow> effect list" where
  "check_logging w a =
     try_except
       (bindC (kubectl_json w ''-n logging get pods'' (args_kubeconfig a)) (\<lambda>j.
        bindC (lift (py_get j ''items'' (JList []))) (\<lambda>pods.
        bindC (lift (bindE (py_iter pods) any_loki)) (\<lambda>has_loki.
        bindC (lift (bindE (py_iter pods) any_promtail)) (\<lambda>has_promtail.
        bindC (if has_loki then emits [Ok [S ''Loki pod Running/Ready''], IncPassed]
               else emits [Warn [S ''Loki not Ready''], IncWarned]) (\<lambda>u.
          if has_promtail then emits [Ok [S ''Promtail pod Running/Ready''], IncPassed]
          else emits [Warn [S ''Promtail not Ready''], IncWarned]))))))
       (\<lambda>e. [Warn [S ''Loki/Promtail check error: '', E e], IncWarned])"

subsection \<open>Demo application\<close>

text \<open>
  The condition of line 338, as Python groups it:
  \<^verbatim>\<open>(alive and "Hostname:" in body) or "Request served by" in body or code in (200, 301, 302)\<close>.
\<close>

definition whoami_passes :: "bool \<Rightarrow> int \<Rightarrow> string \<Rightarrow> bool" where
  "whoami_passes alive code body =
     ((alive \<and> str_in ''Hostname:'' body) \<or> str_in ''Request served by'' body
        \<or> code = 200 \<or> code = 301 \<or> code = 302)"

definition check_whoami :: "env \<Rightarrow> args \<Rightarrow> effect list" where
  "check_whoami w a =
     try_except
       (bindC (sh w (''KUBECONFIG='' @ quoted (args_kubeconfig a)
                      @ '' kubectl -n default get svc whoami'') 20)
          (\<lambda>(rc, out, err).
        bindC (if rc = 0 then emits [Ok [S ''whoami Service exists''], IncPassed]
               else emits [Warn [S ''whoami Service missing''], IncWarned]) (\<lambda>u.
        bindC (case http_probe w (args_ip a) (args_whoami a) ''http'' ''/'' 6 of
                 (alive, code, reason, body) \<Rightarrow>
                   if whoami_passes alive code body then
                     emits [Ok [S ''HTTP probe whoami ('', S (args_whoami a), S '') -> '', I code, S '' '',
                                S reason], IncPassed]
                   else
                     emits [Fail [S ''HTTP probe whoami failed: '', S (or_str reason ''non-200 response'')],
                            IncFailed]) (\<lambda>u.
          if args_https a then
            (case http_probe w (args_ip a) (args_whoami a) ''https'' ''/'' 6 of
               (alive, code, reason, body) \<Rightarrow>
                 if alive then
                   emits [Ok [S ''HTTPS probe whoami ('', S (args_whoami a), S '') -> '', I code, S '' '',
                              S reason], IncPassed]
                 else
                   emits [Fail [S ''HTTPS probe whoami failed: '', S reason], IncFailed])
          else ret ()))))
       (\<lambda>e. [Fail [S ''whoami check error: '', E e], IncFailed])"

subsection \<open>DNS hints\<close>

definition check_dns_host :: "env \<Rightarrow> args \<Rightarrow> string \<Rightarrow> effect list" where
  "check_dns_host w a host =
     try_except
       (bindC (case gethostbyname w host of
                 Raises m \<Rightarrow> raise (LibError m)
               | Returns r \<Rightarrow> ret r) (\<lambda>r.
          if r = args_ip a then emits [Ok [S ''DNS '', S host, S '' -> '', S r]]
          else emits [Warn [S ''DNS '', S host, S '' -> '', S r, S '' (expected '', S (args_ip a), S '')'']]))
       (\<lambda>e. [Warn [S ''DNS '', S host, S '' not resolvable on this VM (ok if Pi-hole not used by VM)'']])"

definition check_dns :: "env \<Rightarrow> args \<Rightarrow> effect list" where
  "check_dns w a = concat (map (check_dns_host w a) [args_argocd a, args_grafana a, args_whoami a])"

subsection \<open>Summary\<close>

definition summary :: "args \<Rightarrow> tally \<Rightarrow> effect list" where
  "summary a s =
     [Print [S (CHR 0x0A # replicate 66 CHR ''='')],
      Print [S ''STACK HEALTH SUMMARY''],
      Print [S (replicate 66 CHR ''='')],
      Print [Sym GREEN, Sym CHECK, Sym RESET, S '' Passed: '', I (passed s), S ''   '',
             Sym YELLOW, Sym WARN, Sym RESET, S '' Warn: '', I (warned s), S ''   '',
             Sym RED, Sym CROSS, Sym RESET, S '' Failed: '', I (failed s)]]
     @ (if failed s = 0 then
          [Print [Sym GREEN, S ''All critical checks passed.'', Sym RESET]]
        else
          [Print [Sym RED, S ''Some critical checks failed. See items marked with '', Sym CROSS,
                  S ''.'', Sym RESET],
           Print [S ''Common fixes:''],
           Print [S '' - Ensure kubeconfig server points to https://'', S (args_ip a), S '':6443''],
           Print [S ''   sudo sed -i 's#https://127.0.0.1:6443#https://'', S (args_ip a),
                  S '':6443#' /etc/rancher/k3s/k3s.yaml''],
           Print [S '' - Check 'kubectl -n monitoring describe pod <operator-pod>' if operator is stuck.''],
           Print [S '' - Verify Pi-hole A records point FQDNs to your node IP, or keep using Host headers.'']])
     @ [Print [S (replicate 66 CHR ''='')]]"

section \<open>The whole run\<close>

text \<open>The sections that follow the kubeconfig block, each after its blank line and header.\<close>

definition checks_after_kubeconfig :: "env \<Rightarrow> args \<Rightarrow> effect list" where
  "checks_after_kubeconfig w a =
     check_readyz w a
     @ [Print [], Info [S ''=== Node health ==='']] @ check_nodes w a
     @ [Print [], Info [S ''=== Core kube-system pods ==='']] @ check_core_pods w a
     @ [Print [], Info [S ''=== Namespaces present ==='']] @ check_namespaces w a
     @ [Print [], Info [S ''=== Argo CD ==='']] @ check_argocd w a
     @ [Print [], Info [S ''=== Grafana / Prometheus (kube-prometheus-stack) ==='']] @ check_monitoring w a
     @ [Print [], Info [S ''=== Loki / Promtail ==='']] @ check_logging w a
     @ [Print [], Info [S ''=== Demo app: whoami ==='']] @ check_whoami w a
     @ [Print [], Info [S ''=== Optional DNS hints ==='']] @ check_dns w a"

text \<open>
  \<^verbatim>\<open>main\<close> after the arguments are parsed: the effects of the run, and the exception
  that ended it if one did. The summary reads the counters as the effects before it
  left them.
\<close>

definition main :: "env \<Rightarrow> args \<Rightarrow> effect list \<times> exn option" where
  "main w a =
     (case bindC (emits [Print [], Info [S ''=== Kubeconfig & API ==='']]) (\<lambda>u. check_kubeconfig w a) of
        (t, Inl e) \<Rightarrow> (t, Some e)
      | (t, Inr u) \<Rightarrow>
          (let body = t @ checks_after_kubeconfig w a
           in (body @ summary a (run body), None)))"

section \<open>Properties of effect sequences\<close>

text \<open>
  Every pass, warn or fail line is directly followed by the increment of its own
  counter.
\<close>

fun counted :: "effect list \<Rightarrow> bool" where
  "counted [] = True"
| "counted (Ok m # IncPassed # es) = counted es"
| "counted (Warn m # IncWarned # es) = counted es"
| "counted (Fail m # IncFailed # es) = counted es"
| "counted (Ok m # es) = False"
| "counted (Warn m # es) = False"
| "counted (Fail m # es) = False"
| "counted (e # es) = counted es"

text \<open>The same for the warn and fail lines alone.\<close>

fun counted_wf :: "effect list \<Rightarrow> bool" where
  "counted_wf [] = True"
| "counted_wf (Warn m # IncWarned # es) = counted_wf es"
| "counted_wf (Fail m # IncFailed # es) = counted_wf es"
| "counted_wf (Warn m # es) = False"
| "counted_wf (Fail m # es) = False"
| "counted_wf (e # es) = counted_wf es"

fun is_inc :: "effect \<Rightarrow> bool" where
  "is_inc IncPassed = True"
| "is_inc IncFailed = True"
| "is_inc IncWarned = True"
| "is_inc _ = False"

text \<open>A text without white space at either end.\<close>

definition trimmed :: "string \<Rightarrow> bool" where
  "trimmed s = (case s of [] \<Rightarrow> True | c # cs \<Rightarrow> \<not> is_space c \<and> \<not> is_space (last s))"

text \<open>The output and the counters after the first \<open>i\<close> effects of a run of \<^verbatim>\<open>main\<close>.\<close>

definition state_at :: "env \<Rightarrow> args \<Rightarrow> nat \<Rightarrow> tally" where
  "state_at w a i = run (take i (fst (main w a)))"

section \<open>Concrete runs\<close>

text \<open>The defaults of the command line, without \<^verbatim>\<open>--https\<close>.\<close>

definition default_args :: args where
  "default_args =
     \<lparr>args_kubeconfig = ''/etc/rancher/k3s/k3s.yaml'', args_ip = ''192.168.2.60'',
      args_argocd = ''argocd.pizza'', args_grafana = ''grafana.pizza'',
      args_whoami = ''whoami.pizza'', args_https = False\<rparr>"

text \<open>
  A machine without a cluster: no kubeconfig, every command exits with 1, every
  connection is refused, no name resolves.
\<close>

definition world_down :: env where
  "world_down =
     \<lparr>isfile = (\<lambda>p. False),
      read_text = (\<lambda>p. Raises ''No such file or directory''),
      popen = (\<lambda>cmd t. Completes 1 [] ''connection refused''),
      json_loads = (\<lambda>s. None),
      int_of_str = (\<lambda>s. None),
      http_get = (\<lambda>tls addr port t path host. HttpRaises ''Connection refused''),
      decode_ignore = (\<lambda>s. s),
      gethostbyname = (\<lambda>h. Raises ''Name or service not known'')\<rparr>"

text \<open>The kubeconfig exists and cannot be read by the user who runs the script.\<close>

definition world_unreadable :: env where
  "world_unreadable =
     world_down\<lparr>isfile := (\<lambda>p. True), read_text := (\<lambda>p. Raises ''Permission denied'')\<rparr>"

text \<open>The kubeconfig as k3s writes it, with the loopback server.\<close>

definition world_loopback :: env where
  "world_loopback =
     world_down\<lparr>isfile := (\<lambda>p. True),
                read_text := (\<lambda>p. Returns (''clusters:'' @ [CHR 0x0A]
                                 @ ''    server: https://127.0.0.1:6443'' @ [CHR 0x0A]))\<rparr>"

text \<open>The ingress answers 503 with a body written by the demo application's image.\<close>

definition world_503 :: env where
  "world_503 =
     world_down\<lparr>http_get := (\<lambda>tls addr port t path host.
                   HttpResponds 503 ''Service Unavailable'' ''Request served by whoami'')\<rparr>"

text \<open>Every name resolves to an address that is not the configured one.\<close>

definition world_other_dns :: env where
  "world_other_dns = world_down\<lparr>gethostbyname := (\<lambda>h. Returns ''10.0.0.7'')\<rparr>"

text \<open>The ingress answers 404 to every request.\<close>

definition world_404 :: env where
  "world_404 =
     world_down\<lparr>http_get := (\<lambda>tls addr port t path host. HttpResponds 404 ''Not Found'' [])\<rparr>"

text \<open>Every command runs into its timeout.\<close>

definition world_slow :: env where
  "world_slow = world_down\<lparr>popen := (\<lambda>cmd t. TimesOut)\<rparr>"

text \<open>A cluster whose API answers every query with an empty JSON object.\<close>

definition world_empty :: env where
  "world_empty =
     world_down\<lparr>popen := (\<lambda>cmd t. Completes 0 (''{}'' @ [CHR 0x0A]) []),
                json_loads := (\<lambda>s. if s = ''{}'' then Some (JObj []) else None)\<rparr>"

text \<open>The output of every command is not valid UTF-8, so reading it as text fails.\<close>

definition world_garbled :: env where
  "world_garbled = world_down\<lparr>popen := (\<lambda>cmd t. CommFails ''invalid start byte'')\<rparr>"

text \<open>A pod that is running with one ready container.\<close>

definition pod_running :: json where
  "pod_running =
     JObj [(''status'', JObj [(''phase'', JStr ''Running''),
                              (''containerStatuses'', JList [JObj [(''ready'', JBool True)]])])]"

section \<open>Lemmas on values and computations\<close>

lemma py_get_Inr:
  "py_get x k d = Inr v \<longleftrightarrow>
     (\<exists>kv. x = JObj kv \<and> v = (case map_of kv k of Some u \<Rightarrow> u | None \<Rightarrow> d))"
  by (cases x) auto

lemma bindE_Inr:
  "bindE m f = Inr y \<longleftrightarrow> (\<exists>x. m = Inr x \<and> f x = Inr y)"
  by (cases m) (simp_all add: bindE_def)

lemma all_ready_True_iff:
  "all_ready cs = Inr True \<longleftrightarrow>
     (\<forall>c\<in>set cs. \<exists>kv r. c = JObj kv \<and> map_of kv ''ready'' = Some r \<and> truthy r)"
proof (induction cs)
  case Nil
  show ?case by simp
next
  case (Cons c cs)
  show ?case
  proof (cases c)
    case (JObj kv)
    then show ?thesis using Cons.IH
      by (cases "map_of kv ''ready''") (simp_all add: bindE_def)
  qed (simp_all add: bindE_def)
qed

text \<open>Only a list can hold entries that all have a \<^verbatim>\<open>get\<close> method.\<close>

lemma py_iter_ready_list:
  assumes "py_iter cs = Inr es" "all_ready es = Inr True" "es \<noteq> []"
  shows "cs = JList es"
proof (cases cs)
  case (JObj kv)
  with assms show ?thesis by (cases kv) (auto simp: bindE_def)
next
  case (JStr s)
  with assms show ?thesis by (cases s) (auto simp: bindE_def)
qed (use assms in simp_all)

lemma fst_emits [simp]: "fst (emits es) = es"
  by (simp add: emits_def)

lemma fst_lift [simp]: "fst (lift r) = []"
  by (simp add: lift_def)

lemma fst_ret [simp]: "fst (ret x) = []"
  by (simp add: ret_def)

lemma fst_raise [simp]: "fst (raise e) = []"
  by (simp add: raise_def)

section \<open>The kubeconfig block and the end of the run\<close>

lemma check_kubeconfig_missing:
  "\<not> isfile w (args_kubeconfig a) \<Longrightarrow>
   check_kubeconfig w a =
     ([Fail [S ''kubeconfig missing: '', S (args_kubeconfig a)],
       IncFailed,
       Print [S (CHR 0x0A # ''Please run:'')],
       Print [S (''  sudo sed -i 's#https://127'' @ [CHR 0x5C] @ ''.0'' @ [CHR 0x5C] @ ''.0''
                   @ [CHR 0x5C] @ ''.1:6443#https://''),
              S (args_ip a), S '':6443#' '', S (args_kubeconfig a)],
       Print []], Inr ())"
  by (simp add: check_kubeconfig_def emits_def)

lemma check_kubeconfig_returns:
  "\<not> isfile w (args_kubeconfig a) \<or> (\<exists>cfg. read_text w (args_kubeconfig a) = Returns cfg) \<Longrightarrow>
   snd (check_kubeconfig w a) = Inr ()"
  by (auto simp: check_kubeconfig_def emits_def bindC_def ret_def split: prod.splits if_splits)

text \<open>
  Once the kubeconfig block is left without an exception, every later section runs and
  the summary is printed from the counters they left.
\<close>

lemma main_completes:
  "snd (check_kubeconfig w a) = Inr () \<Longrightarrow>
   main w a =
     (let body = [Print [], Info [S ''=== Kubeconfig & API ==='']] @ fst (check_kubeconfig w a)
                   @ checks_after_kubeconfig w a
      in (body @ summary a (run body), None))"
  by (cases "check_kubeconfig w a") (simp add: main_def bindC_def emits_def Let_def)

lemma server_line_loopback:
  "server_line (''clusters:'' @ [CHR 0x0A] @ ''    server: https://127.0.0.1:6443'' @ [CHR 0x0A])
     = ''    server: https://127.0.0.1:6443''"
  by code_simp

lemma str_in_loopback:
  "str_in ''127.0.0.1:6443'' ''    server: https://127.0.0.1:6443''"
  by code_simp

section \<open>The claims\<close>

subsection \<open>Pod readiness\<close>

text \<open>
  Claim C1, as amended. \<^verbatim>\<open>pod_ready\<close> returns true exactly when the pod is a mapping whose
  status is a mapping with phase \<^verbatim>\<open>"Running"\<close> and a non-empty list of container statuses,
  each of them a mapping whose \<^verbatim>\<open>ready\<close> value is true in Python's sense (\<^verbatim>\<open>True\<close>, a
  non-zero number, a non-empty string, list or mapping). In every other case, a missing
  field among them, it returns false; it never raises, being a function into the
  booleans. In particular a running pod with an empty list of container statuses is not
  ready.
\<close>

theorem pod_ready_iff_truthy:
  "(pod_ready pod \<longleftrightarrow>
     (\<exists>kv st cs. pod = JObj kv \<and> map_of kv ''status'' = Some (JObj st)
        \<and> map_of st ''phase'' = Some (JStr ''Running'')
        \<and> map_of st ''containerStatuses'' = Some (JList cs) \<and> cs \<noteq> []
        \<and> (\<forall>c\<in>set cs. \<exists>ckv r. c = JObj ckv \<and> map_of ckv ''ready'' = Some r \<and> truthy r)))
   \<and> (\<forall>kv st. pod = JObj kv \<and> map_of kv ''status'' = Some (JObj st)
          \<and> map_of st ''phase'' = Some (JStr ''Running'')
          \<and> map_of st ''containerStatuses'' = Some (JList [])
        \<longrightarrow> \<not> pod_ready pod)"
proof -
  let ?R = "\<exists>kv st cs. pod = JObj kv \<and> map_of kv ''status'' = Some (JObj st)
        \<and> map_of st ''phase'' = Some (JStr ''Running'')
        \<and> map_of st ''containerStatuses'' = Some (JList cs) \<and> cs \<noteq> []
        \<and> (\<forall>c\<in>set cs. \<exists>ckv r. c = JObj ckv \<and> map_of ckv ''ready'' = Some r \<and> truthy r)"
  have forth: ?R if "pod_ready pod"
  proof -
    from that have t: "pod_ready_try pod = Inr True"
      by (simp add: pod_ready_def split: sum.splits)
    then obtain st where st: "py_get pod ''status'' (JObj []) = Inr st"
      by (auto simp: pod_ready_try_def bindE_Inr)
    then obtain kv where kv: "pod = JObj kv"
      "st = (case map_of kv ''status'' of Some u \<Rightarrow> u | None \<Rightarrow> JObj [])"
      by (auto simp: py_get_Inr)
    from t st obtain ph where ph: "py_get st ''phase'' JNull = Inr ph"
      by (auto simp: pod_ready_try_def bindE_Inr)
    from t st ph have running: "ph = JStr ''Running''"
      by (auto simp: pod_ready_try_def bindE_def split: if_splits)
    from ph obtain skv where skv: "st = JObj skv"
      "ph = (case map_of skv ''phase'' of Some u \<Rightarrow> u | None \<Rightarrow> JNull)"
      by (auto simp: py_get_Inr)
    from skv(2) running have phase: "map_of skv ''phase'' = Some (JStr ''Running'')"
      by (cases "map_of skv ''phase''") simp_all
    with kv(2) skv(1) have status: "map_of kv ''status'' = Some (JObj skv)"
      by (cases "map_of kv ''status''") auto
    let ?v = "case map_of skv ''containerStatuses'' of Some u \<Rightarrow> u | None \<Rightarrow> JNull"
    let ?cs = "if truthy ?v then ?v else JList []"
    from t st ph running skv(1) obtain es where es: "py_iter ?cs = Inr es"
      "all_ready es = Inr True" "es \<noteq> []"
      by (auto simp: pod_ready_try_def bindE_Inr Let_def)
    then have "?cs = JList es" by (rule py_iter_ready_list)
    with es(3) have "?v = JList es"
      by (auto split: if_splits)
    then have cst: "map_of skv ''containerStatuses'' = Some (JList es)"
      by (cases "map_of skv ''containerStatuses''") simp_all
    from es(2) have "\<forall>c\<in>set es. \<exists>ckv r. c = JObj ckv \<and> map_of ckv ''ready'' = Some r \<and> truthy r"
      by (simp add: all_ready_True_iff)
    with kv(1) status phase cst es(3) show ?R by blast
  qed
  have conv: "pod_ready pod" if ?R
  proof -
    from that obtain kv st cs where h: "pod = JObj kv" "map_of kv ''status'' = Some (JObj st)"
      "map_of st ''phase'' = Some (JStr ''Running'')"
      "map_of st ''containerStatuses'' = Some (JList cs)" "cs \<noteq> []"
      "\<forall>c\<in>set cs. \<exists>ckv r. c = JObj ckv \<and> map_of ckv ''ready'' = Some r \<and> truthy r"
      by blast
    from h(6) have "all_ready cs = Inr True" by (simp add: all_ready_True_iff)
    with h(1-5) show ?thesis
      by (simp add: pod_ready_def pod_ready_try_def bindE_def)
  qed
  have empty: "\<not> pod_ready pod"
    if "pod = JObj kv \<and> map_of kv ''status'' = Some (JObj st)
          \<and> map_of st ''phase'' = Some (JStr ''Running'')
          \<and> map_of st ''containerStatuses'' = Some (JList [])" for kv st
    using that by (simp add: pod_ready_def pod_ready_try_def bindE_def)
  from forth conv empty show ?thesis by blast
qed

theorem pod_ready_iff_truthy_witness:
  "pod_ready pod_running
   \<and> \<not> pod_ready (JObj [(''status'', JObj [(''phase'', JStr ''Running''),
                                            (''containerStatuses'', JList [])])])
   \<and> \<not> pod_ready (JObj [(''status'', JObj [(''phase'', JStr ''Pending''),
                          (''containerStatuses'', JList [JObj [(''ready'', JBool True)]])])])"
proof -
  have 1: "pod_ready pod_running"
    using pod_ready_iff_truthy [of pod_running] by (simp add: pod_running_def)
  have 2: "\<not> pod_ready (JObj [(''status'', JObj [(''phase'', JStr ''Running''),
                                            (''containerStatuses'', JList [])])])"
    using pod_ready_iff_truthy [of "JObj [(''status'', JObj [(''phase'', JStr ''Running''),
                                            (''containerStatuses'', JList [])])]"]
    by simp
  have 3: "\<not> pod_ready (JObj [(''status'', JObj [(''phase'', JStr ''Pending''),
                          (''containerStatuses'', JList [JObj [(''ready'', JBool True)]])])])"
    using pod_ready_iff_truthy [of "JObj [(''status'', JObj [(''phase'', JStr ''Pending''),
                          (''containerStatuses'', JList [JObj [(''ready'', JBool True)]])])]"]
    by simp
  from 1 2 3 show ?thesis by simp
qed

text \<open>
  The claim as it is written fails: a container status whose \<^verbatim>\<open>ready\<close> field is the
  string \<^verbatim>\<open>"false"\<close>, a malformed field that is not the boolean true, makes the pod ready.
\<close>

theorem pod_ready_text_counterexample:
  "pod_ready (JObj [(''status'', JObj [(''phase'', JStr ''Running''),
                      (''containerStatuses'', JList [JObj [(''ready'', JStr ''false'')]])])])
   \<and> py_get (JObj [(''ready'', JStr ''false'')]) ''ready'' JNull \<noteq> Inr (JBool True)"
  by (simp add: pod_ready_def pod_ready_try_def bindE_def)

subsection \<open>HTTP probe\<close>

text \<open>
  Claim C2. When the exchange gives a response, \<^verbatim>\<open>http_probe\<close> returns its status and
  reason with the decoded bytes, and reports it alive exactly when the status is at
  least 100 and below 500: so a status in that range is reachable and a status of 500
  or more is not. When any step of the exchange raises, it returns not alive, status 0,
  the exception's message as the reason and an empty body. It is a function into the
  four-tuples: no exception leaves it.
\<close>

theorem http_probe_classifies:
  "(http_exchange w addr host scheme path t = HttpResponds st rs d \<longrightarrow>
      http_probe w addr host scheme path t = (100 \<le> st \<and> st < 500, st, rs, decode_ignore w d)
      \<and> (100 \<le> st \<and> st < 500 \<longrightarrow> fst (http_probe w addr host scheme path t))
      \<and> (500 \<le> st \<longrightarrow> \<not> fst (http_probe w addr host scheme path t)))
   \<and> (http_exchange w addr host scheme path t = HttpRaises m \<longrightarrow>
      http_probe w addr host scheme path t = (False, 0, m, []))"
  by (simp add: http_probe_def)

theorem http_probe_classifies_witness:
  "fst (http_probe world_404 ''192.168.2.60'' ''whoami.pizza'' ''http'' ''/'' 6)
   \<and> \<not> fst (http_probe world_503 ''192.168.2.60'' ''whoami.pizza'' ''http'' ''/'' 6)
   \<and> http_probe world_down ''192.168.2.60'' ''whoami.pizza'' ''https'' ''/'' 6
       = (False, 0, ''Connection refused'', [])"
proof -
  have a: "http_exchange world_404 ''192.168.2.60'' ''whoami.pizza'' ''http'' ''/'' 6
             = HttpResponds 404 ''Not Found'' []"
    by (simp add: http_exchange_def world_404_def world_down_def)
  have b: "http_exchange world_503 ''192.168.2.60'' ''whoami.pizza'' ''http'' ''/'' 6
             = HttpResponds 503 ''Service Unavailable'' ''Request served by whoami''"
    by (simp add: http_exchange_def world_503_def world_down_def)
  have c: "http_exchange world_down ''192.168.2.60'' ''whoami.pizza'' ''https'' ''/'' 6
             = HttpRaises ''Connection refused''"
    by (simp add: http_exchange_def world_down_def)
  from http_probe_classifies [of world_404 "''192.168.2.60''" "''whoami.pizza''" "''http''" "''/''" 6
         404 "''Not Found''" "[]"] a
  have 1: "fst (http_probe world_404 ''192.168.2.60'' ''whoami.pizza'' ''http'' ''/'' 6)"
    by simp
  from http_probe_classifies [of world_503 "''192.168.2.60''" "''whoami.pizza''" "''http''" "''/''" 6
         503 "''Service Unavailable''" "''Request served by whoami''"] b
  have 2: "\<not> fst (http_probe world_503 ''192.168.2.60'' ''whoami.pizza'' ''http'' ''/'' 6)"
    by simp
  from http_probe_classifies [of world_down "''192.168.2.60''" "''whoami.pizza''" "''https''" "''/''" 6
         _ _ _ "''Connection refused''"] c
  have 3: "http_probe world_down ''192.168.2.60'' ''whoami.pizza'' ''https'' ''/'' 6
       = (False, 0, ''Connection refused'', [])"
    by simp
  from 1 2 3 show ?thesis by simp
qed

subsection \<open>Isolation of the sections\<close>

text \<open>
  Claim C3 does not hold of the code. The kubeconfig block opens and reads the file
  outside every \<^verbatim>\<open>try\<close>, while all the later sections are wrapped: when the file exists
  and reading it raises, the run ends there with that exception, after three lines of
  output, and neither the other sections nor the summary follow.
\<close>

theorem main_stops_on_unreadable_kubeconfig:
  "isfile w (args_kubeconfig a) \<Longrightarrow> read_text w (args_kubeconfig a) = Raises m \<Longrightarrow>
   main w a =
     ([Print [], Info [S ''=== Kubeconfig & API ===''],
       Ok [S ''kubeconfig found at '', S (args_kubeconfig a)]],
      Some (LibError m))"
  by (simp add: main_def check_kubeconfig_def bindC_def emits_def raise_def)

theorem main_stops_on_unreadable_kubeconfig_witness:
  "main world_unreadable default_args =
     ([Print [], Info [S ''=== Kubeconfig & API ===''],
       Ok [S ''kubeconfig found at '', S ''/etc/rancher/k3s/k3s.yaml'']],
      Some (LibError ''Permission denied''))"
  using main_stops_on_unreadable_kubeconfig [of world_unreadable default_args "''Permission denied''"]
  by (simp add: world_unreadable_def world_down_def default_args_def)

subsection \<open>The demo application's probe\<close>

text \<open>
  Claim C5 does not hold of the code. In the world whose ingress answers 503 with a body
  that contains \<^verbatim>\<open>Request served by\<close>, the probe reports not alive, and the whoami
  section still takes the pass branch and increments \<^verbatim>\<open>passed\<close>: the condition of line 338
  binds \<^verbatim>\<open>alive and\<close> to the first marker only.
\<close>

theorem whoami_passes_failed_probe:
  "http_probe world_503 (args_ip default_args) (args_whoami default_args) ''http'' ''/'' 6
     = (False, 503, ''Service Unavailable'', ''Request served by whoami'')
   \<and> check_whoami world_503 default_args =
       [Warn [S ''whoami Service missing''], IncWarned,
        Ok [S ''HTTP probe whoami ('', S ''whoami.pizza'', S '') -> '', I 503, S '' '',
            S ''Service Unavailable''], IncPassed]"
proof -
  have p: "http_probe world_503 (args_ip default_args) (args_whoami default_args) ''http'' ''/'' 6
     = (False, 503, ''Service Unavailable'', ''Request served by whoami'')"
    by (simp add: http_probe_def http_exchange_def world_503_def world_down_def)
  have s: "str_in ''Request served by'' ''Request served by whoami''"
    by code_simp
  have c: "sh world_503 (''KUBECONFIG='' @ quoted (args_kubeconfig default_args)
                      @ '' kubectl -n default get svc whoami'') 20 = ([], Inr (1, [], ''connection refused''))"
    by (simp add: sh_def world_503_def world_down_def ret_def strip_def is_space_def)
  show ?thesis
    unfolding check_whoami_def p c
    by (simp add: bindC_def emits_def ret_def try_except_def whoami_passes_def s p default_args_def)
qed

subsection \<open>The kubeconfig check\<close>

text \<open>
  Claim C7. When the kubeconfig is an existing file that can be read and the first of
  its lines that contains \<^verbatim>\<open>server: \<close> contains \<^verbatim>\<open>127.0.0.1:6443\<close>, the check prints the
  found line and the warning and increments \<^verbatim>\<open>warned\<close> by one; \<^verbatim>\<open>failed\<close> keeps its value.
\<close>

theorem kubeconfig_loopback_warns:
  "isfile w (args_kubeconfig a) \<Longrightarrow> read_text w (args_kubeconfig a) = Returns cfg \<Longrightarrow>
   str_in ''127.0.0.1:6443'' (server_line cfg) \<Longrightarrow>
   check_kubeconfig w a =
     ([Ok [S ''kubeconfig found at '', S (args_kubeconfig a)],
       Warn [S ''kubeconfig still points to https://127.0.0.1:6443 (will still try using it)''],
       IncWarned], Inr ())
   \<and> warned (run_from s (fst (check_kubeconfig w a))) = warned s + 1
   \<and> failed (run_from s (fst (check_kubeconfig w a))) = failed s"
  by (simp add: check_kubeconfig_def bindC_def emits_def ret_def run_from_def)

theorem kubeconfig_loopback_warns_witness:
  "check_kubeconfig world_loopback default_args =
     ([Ok [S ''kubeconfig found at '', S ''/etc/rancher/k3s/k3s.yaml''],
       Warn [S ''kubeconfig still points to https://127.0.0.1:6443 (will still try using it)''],
       IncWarned], Inr ())
   \<and> warned (run_from start (fst (check_kubeconfig world_loopback default_args))) = 1
   \<and> failed (run_from start (fst (check_kubeconfig world_loopback default_args))) = 0"
proof -
  have 1: "isfile world_loopback (args_kubeconfig default_args)"
    by (simp add: world_loopback_def)
  have 2: "read_text world_loopback (args_kubeconfig default_args) =
      Returns (''clusters:'' @ [CHR 0x0A] @ ''    server: https://127.0.0.1:6443'' @ [CHR 0x0A])"
    by (simp add: world_loopback_def)
  have 3: "str_in ''127.0.0.1:6443''
      (server_line (''clusters:'' @ [CHR 0x0A] @ ''    server: https://127.0.0.1:6443'' @ [CHR 0x0A]))"
    unfolding server_line_loopback by (rule str_in_loopback)
  from kubeconfig_loopback_warns [OF 1 2 3, of start]
  show ?thesis by (simp add: default_args_def start_def run_from_def)
qed

text \<open>
  Claim C8. When the kubeconfig path names no existing file, the check prints the fail
  line, increments \<^verbatim>\<open>failed\<close> by one and prints the remediation hint, whose line holds
  the configured IP address; no exception leaves the block, and the run goes on: the API
  readiness check, then, each after its blank line and header, the node, core pod,
  namespace, Argo CD, monitoring, logging, demo application and DNS sections run in this
  order, and the summary is printed from the counters they left.
\<close>

theorem kubeconfig_missing_fails:
  "\<not> isfile w (args_kubeconfig a) \<Longrightarrow>
   check_kubeconfig w a =
     ([Fail [S ''kubeconfig missing: '', S (args_kubeconfig a)],
       IncFailed,
       Print [S (CHR 0x0A # ''Please run:'')],
       Print [S (''  sudo sed -i 's#https://127'' @ [CHR 0x5C] @ ''.0'' @ [CHR 0x5C] @ ''.0''
                   @ [CHR 0x5C] @ ''.1:6443#https://''),
              S (args_ip a), S '':6443#' '', S (args_kubeconfig a)],
       Print []], Inr ())
   \<and> failed (run_from s (fst (check_kubeconfig w a))) = failed s + 1
   \<and> main w a =
       (let body = [Print [], Info [S ''=== Kubeconfig & API ===''],
                    Fail [S ''kubeconfig missing: '', S (args_kubeconfig a)],
                    IncFailed,
                    Print [S (CHR 0x0A # ''Please run:'')],
                    Print [S (''  sudo sed -i 's#https://127'' @ [CHR 0x5C] @ ''.0'' @ [CHR 0x5C] @ ''.0''
                                @ [CHR 0x5C] @ ''.1:6443#https://''),
                           S (args_ip a), S '':6443#' '', S (args_kubeconfig a)],
                    Print []]
                   @ check_readyz w a
                   @ [Print [], Info [S ''=== Node health ==='']] @ check_nodes w a
                   @ [Print [], Info [S ''=== Core kube-system pods ==='']] @ check_core_pods w a
                   @ [Print [], Info [S ''=== Namespaces present ==='']] @ check_namespaces w a
                   @ [Print [], Info [S ''=== Argo CD ==='']] @ check_argocd w a
                   @ [Print [], Info [S ''=== Grafana / Prometheus (kube-prometheus-stack) ==='']]
                   @ check_monitoring w a
                   @ [Print [], Info [S ''=== Loki / Promtail ==='']] @ check_logging w a
                   @ [Print [], Info [S ''=== Demo app: whoami ==='']] @ check_whoami w a
                   @ [Print [], Info [S ''=== Optional DNS hints ==='']] @ check_dns w a
        in (body @ summary a (run body), None))"
proof -
  assume h: "\<not> isfile w (args_kubeconfig a)"
  note k = check_kubeconfig_missing [OF h]
  have r: "snd (check_kubeconfig w a) = Inr ()" by (simp add: k)
  have m: "main w a =
       (let body = [Print [], Info [S ''=== Kubeconfig & API ===''],
                    Fail [S ''kubeconfig missing: '', S (args_kubeconfig a)],
                    IncFailed,
                    Print [S (CHR 0x0A # ''Please run:'')],
                    Print [S (''  sudo sed -i 's#https://127'' @ [CHR 0x5C] @ ''.0'' @ [CHR 0x5C] @ ''.0''
                                @ [CHR 0x5C] @ ''.1:6443#https://''),
                           S (args_ip a), S '':6443#' '', S (args_kubeconfig a)],
                    Print []]
                   @ check_readyz w a
                   @ [Print [], Info [S ''=== Node health ==='']] @ check_nodes w a
                   @ [Print [], Info [S ''=== Core kube-system pods ==='']] @ check_core_pods w a
                   @ [Print [], Info [S ''=== Namespaces present ==='']] @ check_namespaces w a
                   @ [Print [], Info [S ''=== Argo CD ==='']] @ check_argocd w a
                   @ [Print [], Info [S ''=== Grafana / Prometheus (kube-prometheus-stack) ==='']]
                   @ check_monitoring w a
                   @ [Print [], Info [S ''=== Loki / Promtail ==='']] @ check_logging w a
                   @ [Print [], Info [S ''=== Demo app: whoami ==='']] @ check_whoami w a
                   @ [Print [], Info [S ''=== Optional DNS hints ==='']] @ check_dns w a
        in (body @ summary a (run body), None))"
    using main_completes [OF r] by (simp add: k checks_after_kubeconfig_def Let_def)
  have f: "failed (run_from s (fst (check_kubeconfig w a))) = failed s + 1"
    by (simp add: k run_from_def)
  show ?thesis
    by (rule conjI [OF k conjI [OF f m]])
qed

theorem kubeconfig_missing_fails_witness:
  "fst (check_kubeconfig world_down default_args) ! 3 =
     Print [S (''  sudo sed -i 's#https://127'' @ [CHR 0x5C] @ ''.0'' @ [CHR 0x5C] @ ''.0''
                   @ [CHR 0x5C] @ ''.1:6443#https://''),
            S ''192.168.2.60'', S '':6443#' '', S ''/etc/rancher/k3s/k3s.yaml'']
   \<and> failed (run_from start (fst (check_kubeconfig world_down default_args))) = 1
   \<and> snd (main world_down default_args) = None
   \<and> Info [S ''=== Node health ===''] \<in> set (fst (main world_down default_args))
   \<and> Info [S ''=== Optional DNS hints ===''] \<in> set (fst (main world_down default_args))
   \<and> Fail [S ''API /readyz: not ready ('', S ''connection refused'', S '')'']
        \<in> set (fst (main world_down default_args))"
proof -
  have h: "\<not> isfile world_down (args_kubeconfig default_args)"
    by (simp add: world_down_def)
  note t = kubeconfig_missing_fails [OF h, of start]
  from t have k: "fst (check_kubeconfig world_down default_args) ! 3 =
     Print [S (''  sudo sed -i 's#https://127'' @ [CHR 0x5C] @ ''.0'' @ [CHR 0x5C] @ ''.0''
                   @ [CHR 0x5C] @ ''.1:6443#https://''),
            S (args_ip default_args), S '':6443#' '', S (args_kubeconfig default_args)]"
    by simp
  from t have f: "failed (run_from start (fst (check_kubeconfig world_down default_args))) = failed start + 1"
    by blast
  from t have m: "snd (main world_down default_args) = None"
    by (simp add: Let_def)
  from t have n: "Info [S ''=== Node health ===''] \<in> set (fst (main world_down default_args))"
    by (simp add: Let_def)
  from t have d: "Info [S ''=== Optional DNS hints ===''] \<in> set (fst (main world_down default_args))"
    by (simp add: Let_def)
  have "sh world_down (''KUBECONFIG='' @ quoted (args_kubeconfig default_args)
                      @ '' kubectl get --raw='/readyz' 2>/dev/null'') 20
          = ([], Inr (1, [], ''connection refused''))"
    by (simp add: sh_def world_down_def ret_def strip_def is_space_def)
  then have "check_readyz world_down default_args =
      [Fail [S ''API /readyz: not ready ('', S ''connection refused'', S '')''], IncFailed]"
    by (simp add: check_readyz_def try_except_def bindC_def emits_def or_str_def)
  with t have z: "Fail [S ''API /readyz: not ready ('', S ''connection refused'', S '')'']
        \<in> set (fst (main world_down default_args))"
    by (simp add: Let_def)
  from k f m n d z show ?thesis
    by (simp add: default_args_def start_def)
qed

section \<open>Every counted line is followed by its increment\<close>

lemma counted_append: "counted xs \<Longrightarrow> counted ys \<Longrightarrow> counted (xs @ ys)"
  by (induction xs rule: counted.induct) simp_all

lemma counted_bindC:
  "counted (fst m) \<Longrightarrow> (\<And>x. counted (fst (f x))) \<Longrightarrow> counted (fst (bindC m f))"
  by (auto simp: bindC_def counted_append split: prod.splits sum.splits) (metis counted_append fst_conv)

lemma counted_try_except:
  "counted (fst m) \<Longrightarrow> (\<And>e. counted (h e)) \<Longrightarrow> counted (try_except m h)"
  by (auto simp: try_except_def counted_append split: prod.splits sum.splits)

lemma counted_concat_map: "(\<And>x. counted (f x)) \<Longrightarrow> counted (concat (map f xs))"
  by (induction xs) (simp_all add: counted_append)

lemma counted_fst_if:
  "(c \<Longrightarrow> counted (fst x)) \<Longrightarrow> (\<not> c \<Longrightarrow> counted (fst y)) \<Longrightarrow> counted (fst (if c then x else y))"
  by simp

lemma counted_fst_case_prod:
  "(\<And>a b. counted (fst (f a b))) \<Longrightarrow> counted (fst (case p of (a, b) \<Rightarrow> f a b))"
  by (cases p) simp

lemmas counted_steps =
  counted_try_except counted_bindC counted_fst_if counted_fst_case_prod

lemma counted_sh: "counted (fst (sh w cmd t))"
  by (simp add: sh_def split: proc.splits)

lemma counted_kubectl_json: "counted (fst (kubectl_json w args kc))"
  unfolding kubectl_json_def
  by (rule counted_bindC) (simp_all add: counted_sh split: prod.splits)

lemma counted_check_readyz: "counted (check_readyz w a)"
  unfolding check_readyz_def
  by (intro counted_steps counted_sh) simp_all

lemma counted_check_nodes: "counted (check_nodes w a)"
  unfolding check_nodes_def Let_def
  by (intro counted_steps counted_kubectl_json) simp_all

lemma counted_report_core: "counted (report_core need)"
  unfolding report_core_def
  by (rule counted_concat_map) (simp split: prod.splits)

lemma counted_check_core_pods: "counted (check_core_pods w a)"
  unfolding check_core_pods_def
  by (intro counted_steps counted_kubectl_json) (simp_all add: counted_report_core)

lemma counted_check_namespace: "counted (check_namespace w a ns)"
  unfolding check_namespace_def
  by (intro counted_steps counted_sh) simp_all

lemma counted_check_namespaces: "counted (check_namespaces w a)"
  unfolding check_namespaces_def
  by (rule counted_concat_map) (rule counted_check_namespace)

lemma counted_check_argocd: "counted (check_argocd w a)"
  unfolding check_argocd_def
  by (intro counted_steps counted_sh) simp_all

lemma counted_check_monitoring: "counted (check_monitoring w a)"
  unfolding check_monitoring_def
  by (intro counted_steps counted_sh) simp_all

lemma counted_check_logging: "counted (check_logging w a)"
  unfolding check_logging_def
  by (intro counted_steps counted_kubectl_json) simp_all

lemma counted_check_whoami: "counted (check_whoami w a)"
  unfolding check_whoami_def
  by (intro counted_steps counted_sh) simp_all

section \<open>Running a sequence of effects\<close>

lemma run_from_append: "run_from s (xs @ ys) = run_from (run_from s xs) ys"
  by (simp add: run_from_def)

lemma exec_passed: "passed (exec e s) = passed s \<or> passed (exec e s) = passed s + 1"
  by (cases e) simp_all

lemma exec_failed: "failed (exec e s) = failed s \<or> failed (exec e s) = failed s + 1"
  by (cases e) simp_all

lemma exec_warned: "warned (exec e s) = warned s \<or> warned (exec e s) = warned s + 1"
  by (cases e) simp_all

lemma run_from_mono:
  "passed s \<le> passed (run_from s es) \<and> failed s \<le> failed (run_from s es)
   \<and> warned s \<le> warned (run_from s es)"
proof (induction es arbitrary: s)
  case Nil
  show ?case by (simp add: run_from_def)
next
  case (Cons e es)
  have "run_from s (e # es) = run_from (exec e s) es"
    by (simp add: run_from_def)
  moreover have "passed s \<le> passed (exec e s)" "failed s \<le> failed (exec e s)"
    "warned s \<le> warned (exec e s)"
    using exec_passed [of e s] exec_failed [of e s] exec_warned [of e s] by linarith+
  ultimately show ?case
    using Cons.IH [of "exec e s"] by simp
qed

lemma run_take_Suc:
  "run (take (Suc i) t) = (if i < length t then exec (t ! i) (run (take i t)) else run (take i t))"
  by (simp add: run_def run_from_def take_Suc_conv_app_nth)

lemma run_take_le:
  assumes "i \<le> j"
  shows "run (take j t) = run_from (run (take i t)) (drop i (take j t))"
proof -
  from assms have "take j t = take i t @ drop i (take j t)"
    by (metis append_take_drop_id min.absorb1 take_take)
  then have "run (take j t) = run (take i t @ drop i (take j t))" by simp
  then show ?thesis by (simp add: run_def run_from_append)
qed

section \<open>White space\<close>

lemma last_dropWhile_nonempty: "dropWhile P xs \<noteq> [] \<Longrightarrow> last (dropWhile P xs) = last xs"
  by (metis last_appendR takeWhile_dropWhile_id)

lemma trimmed_strip: "trimmed (strip s)"
proof (cases "strip s")
  case Nil
  then show ?thesis by (simp add: trimmed_def)
next
  case (Cons c cs)
  let ?xs = "dropWhile is_space s"
  let ?zs = "dropWhile is_space (rev ?xs)"
  from Cons have zs: "?zs \<noteq> []" by (auto simp: strip_def)
  then have "rev ?xs \<noteq> []" by (metis dropWhile.simps(1))
  then have xs: "?xs \<noteq> []" by simp
  have "last (strip s) = hd ?zs"
    using zs by (simp add: strip_def last_rev)
  moreover have "\<not> is_space (hd ?zs)"
    using zs by (rule hd_dropWhile)
  moreover have "hd (strip s) = last ?zs"
    using zs by (simp add: strip_def hd_rev)
  moreover have "last ?zs = last (rev ?xs)"
    using zs by (rule last_dropWhile_nonempty)
  moreover have "last (rev ?xs) = hd ?xs"
    using xs by (simp add: last_rev)
  moreover have "\<not> is_space (hd ?xs)"
    using xs by (rule hd_dropWhile)
  ultimately have "\<not> is_space (hd (strip s)) \<and> \<not> is_space (last (strip s))"
    by simp
  with Cons show ?thesis by (simp add: trimmed_def)
qed

lemma trimmed_timeout: "trimmed (''timeout after '' @ str_int t @ ''s'')"
  by (simp add: trimmed_def is_space_def)

section \<open>The DNS hints and the kubeconfig block\<close>

lemma no_inc_check_dns_host: "filter is_inc (check_dns_host w a h) = []"
  by (cases "gethostbyname w h")
     (simp_all add: check_dns_host_def try_except_def bindC_def ret_def raise_def emits_def)

lemma no_inc_check_dns: "filter is_inc (check_dns w a) = []"
  by (simp add: check_dns_def no_inc_check_dns_host)

lemma counted_wf_check_kubeconfig: "counted_wf (fst (check_kubeconfig w a))"
  by (cases "read_text w (args_kubeconfig a)")
     (simp_all add: check_kubeconfig_def bindC_def emits_def ret_def raise_def)

section \<open>The claims on the runner and the counters\<close>

text \<open>
  Claim C4, as amended. In the sections from the API readiness check to the demo
  application, every pass, warn or fail line is directly followed by the increment of
  its own counter, and so is every warn or fail line of the kubeconfig block. The DNS
  hints print their pass and warn lines and increment no counter.
\<close>

theorem lines_counted:
  "counted_wf (fst (check_kubeconfig w a))
   \<and> counted (check_readyz w a) \<and> counted (check_nodes w a) \<and> counted (check_core_pods w a)
   \<and> counted (check_namespaces w a) \<and> counted (check_argocd w a)
   \<and> counted (check_monitoring w a) \<and> counted (check_logging w a)
   \<and> counted (check_whoami w a)
   \<and> filter is_inc (check_dns w a) = []"
  by (simp add: counted_wf_check_kubeconfig counted_check_readyz counted_check_nodes
        counted_check_core_pods counted_check_namespaces counted_check_argocd
        counted_check_monitoring counted_check_logging counted_check_whoami no_inc_check_dns)

theorem lines_counted_witness:
  "counted (check_nodes world_down default_args) \<and> counted (check_whoami world_503 default_args)
   \<and> filter is_inc (check_dns world_other_dns default_args) = []"
  using lines_counted [of world_down default_args] lines_counted [of world_503 default_args]
    lines_counted [of world_other_dns default_args]
  by simp

text \<open>
  The claim as it is written fails on the DNS hints: when the three names resolve to
  another address, three warn lines are printed, none is followed by an increment and
  the warn counter keeps its value.
\<close>

theorem dns_hints_counterexample:
  "check_dns world_other_dns default_args =
     [Warn [S ''DNS '', S ''argocd.pizza'', S '' -> '', S ''10.0.0.7'', S '' (expected '',
            S ''192.168.2.60'', S '')''],
      Warn [S ''DNS '', S ''grafana.pizza'', S '' -> '', S ''10.0.0.7'', S '' (expected '',
            S ''192.168.2.60'', S '')''],
      Warn [S ''DNS '', S ''whoami.pizza'', S '' -> '', S ''10.0.0.7'', S '' (expected '',
            S ''192.168.2.60'', S '')'']]
   \<and> \<not> counted (check_dns world_other_dns default_args)
   \<and> warned (run_from start (check_dns world_other_dns default_args)) = 0"
proof -
  have d: "check_dns world_other_dns default_args =
     [Warn [S ''DNS '', S ''argocd.pizza'', S '' -> '', S ''10.0.0.7'', S '' (expected '',
            S ''192.168.2.60'', S '')''],
      Warn [S ''DNS '', S ''grafana.pizza'', S '' -> '', S ''10.0.0.7'', S '' (expected '',
            S ''192.168.2.60'', S '')''],
      Warn [S ''DNS '', S ''whoami.pizza'', S '' -> '', S ''10.0.0.7'', S '' (expected '',
            S ''192.168.2.60'', S '')'']]"
    by (simp add: check_dns_def check_dns_host_def world_other_dns_def world_down_def
          default_args_def try_except_def bindC_def ret_def emits_def)
  show ?thesis unfolding d by (simp add: run_from_def start_def)
qed

text \<open>
  Claim C6, as amended. When the child does not complete within the timeout, \<^verbatim>\<open>sh\<close> kills
  it and returns the exit code 124, an empty standard output and the message
  \<^verbatim>\<open>timeout after <timeout>s\<close> in the place of the standard error. When the child
  completes, \<^verbatim>\<open>sh\<close> returns its return code with both streams stripped. Whatever \<^verbatim>\<open>sh\<close>
  returns, the two texts have no white space at either end. When \<^verbatim>\<open>Popen\<close> raises, or
  \<^verbatim>\<open>communicate\<close> raises anything but \<^verbatim>\<open>TimeoutExpired\<close>, \<^verbatim>\<open>sh\<close> returns nothing: the exception
  goes to its caller.
\<close>

theorem sh_returns_or_raises:
  "(popen w cmd t = TimesOut \<longrightarrow>
      sh w cmd t = ([Kill], Inr (124, [], ''timeout after '' @ str_int t @ ''s'')))
   \<and> (popen w cmd t = Completes rc out err \<longrightarrow>
      sh w cmd t = ([], Inr (rc, strip out, strip err)))
   \<and> (sh w cmd t = (es, Inr (rc', out', err')) \<longrightarrow> trimmed out' \<and> trimmed err')
   \<and> (popen w cmd t = SpawnFails m \<longrightarrow> sh w cmd t = ([], Inl (LibError m)))
   \<and> (popen w cmd t = CommFails m \<longrightarrow> sh w cmd t = ([], Inl (LibError m)))"
proof -
  have "trimmed out' \<and> trimmed err'" if "sh w cmd t = (es, Inr (rc', out', err'))"
    using that trimmed_strip trimmed_timeout [of t]
    by (cases "popen w cmd t") (auto simp: sh_def ret_def raise_def trimmed_def)
  then show ?thesis by (simp add: sh_def ret_def raise_def)
qed

theorem sh_returns_or_raises_witness:
  "sh world_slow ''sleep 60'' 20 = ([Kill], Inr (124, [], ''timeout after 20s''))
   \<and> sh world_empty ''kubectl get nodes -o json'' 40 = ([], Inr (0, ''{}'', []))
   \<and> trimmed ''timeout after 20s'' \<and> trimmed ''{}''
   \<and> sh world_garbled ''kubectl get nodes -o json'' 40 = ([], Inl (LibError ''invalid start byte''))"
proof -
  have a: "popen world_slow ''sleep 60'' 20 = TimesOut"
    by (simp add: world_slow_def)
  have b: "popen world_empty ''kubectl get nodes -o json'' 40 = Completes 0 (''{}'' @ [CHR 0x0A]) []"
    by (simp add: world_empty_def)
  have c: "popen world_garbled ''kubectl get nodes -o json'' 40 = CommFails ''invalid start byte''"
    by (simp add: world_garbled_def)
  have s20: "str_int 20 = ''20''" by code_simp
  have st: "strip (''{}'' @ [CHR 0x0A]) = ''{}''" "strip [] = []" by code_simp+
  from sh_returns_or_raises [of world_slow "''sleep 60''" 20] a
  have 1: "sh world_slow ''sleep 60'' 20 = ([Kill], Inr (124, [], ''timeout after 20s''))"
    by (simp add: s20)
  from sh_returns_or_raises [of world_empty "''kubectl get nodes -o json''" 40 0 "''{}'' @ [CHR 0x0A]" "[]"] b
  have 2: "sh world_empty ''kubectl get nodes -o json'' 40 = ([], Inr (0, ''{}'', []))"
    by (simp add: st [simplified])
  from sh_returns_or_raises [of world_slow "''sleep 60''" 20 _ _ _ "[Kill]" 124 "[]" "''timeout after 20s''"] 1
  have 3: "trimmed ''timeout after 20s''" by simp
  from sh_returns_or_raises [of world_empty "''kubectl get nodes -o json''" 40 _ _ _ "[]" 0 "''{}''" "[]"] 2
  have 4: "trimmed ''{}''" by simp
  from sh_returns_or_raises [where w = world_garbled and cmd = "''kubectl get nodes -o json''"
         and t = 40 and m = "''invalid start byte''"] c
  have 5: "sh world_garbled ''kubectl get nodes -o json'' 40 = ([], Inl (LibError ''invalid start byte''))"
    by simp
  from 1 2 3 4 5 show ?thesis by simp
qed

text \<open>
  The claim as it is written fails: when the output of the child is not valid UTF-8,
  \<^verbatim>\<open>communicate\<close> raises \<^verbatim>\<open>UnicodeDecodeError\<close>, which \<^verbatim>\<open>sh\<close> does not catch, and \<^verbatim>\<open>sh\<close> returns no
  exit code and no text.
\<close>

theorem sh_raises_counterexample:
  "sh world_garbled ''kubectl get nodes -o json'' 40 = ([], Inl (LibError ''invalid start byte''))"
  by (simp add: sh_def world_garbled_def raise_def)

text \<open>
  Claim C10. The three counters start at zero; each effect of a run leaves a counter as
  it is or adds one to it, so over the run no counter ever decreases and none is ever
  negative; and the summary of a run that reaches it prints the counters as the effects
  before it left them.
\<close>

theorem counters_only_increase:
  "passed (state_at w a 0) = 0 \<and> failed (state_at w a 0) = 0 \<and> warned (state_at w a 0) = 0
   \<and> (passed (state_at w a (Suc i)) = passed (state_at w a i)
        \<or> passed (state_at w a (Suc i)) = passed (state_at w a i) + 1)
   \<and> (failed (state_at w a (Suc i)) = failed (state_at w a i)
        \<or> failed (state_at w a (Suc i)) = failed (state_at w a i) + 1)
   \<and> (warned (state_at w a (Suc i)) = warned (state_at w a i)
        \<or> warned (state_at w a (Suc i)) = warned (state_at w a i) + 1)
   \<and> (i \<le> j \<longrightarrow> passed (state_at w a i) \<le> passed (state_at w a j)
                \<and> failed (state_at w a i) \<le> failed (state_at w a j)
                \<and> warned (state_at w a i) \<le> warned (state_at w a j))
   \<and> 0 \<le> passed (state_at w a i) \<and> 0 \<le> failed (state_at w a i) \<and> 0 \<le> warned (state_at w a i)
   \<and> (snd (main w a) = None \<longrightarrow>
        (\<exists>n. fst (main w a) = take n (fst (main w a)) @ summary a (state_at w a n)))"
proof -
  let ?t = "fst (main w a)"
  have zero: "state_at w a 0 = start"
    by (simp add: state_at_def run_def run_from_def)
  have step: "passed (state_at w a (Suc i)) = passed (state_at w a i)
        \<or> passed (state_at w a (Suc i)) = passed (state_at w a i) + 1"
     "failed (state_at w a (Suc i)) = failed (state_at w a i)
        \<or> failed (state_at w a (Suc i)) = failed (state_at w a i) + 1"
     "warned (state_at w a (Suc i)) = warned (state_at w a i)
        \<or> warned (state_at w a (Suc i)) = warned (state_at w a i) + 1"
    using exec_passed [of "?t ! i" "run (take i ?t)"] exec_failed [of "?t ! i" "run (take i ?t)"]
      exec_warned [of "?t ! i" "run (take i ?t)"]
    by (simp_all add: state_at_def run_take_Suc)
  have mono: "passed (state_at w a i) \<le> passed (state_at w a j)
                \<and> failed (state_at w a i) \<le> failed (state_at w a j)
                \<and> warned (state_at w a i) \<le> warned (state_at w a j)" if "i \<le> j" for i j
    unfolding state_at_def run_take_le [OF that, of ?t] by (rule run_from_mono)
  have nonneg: "0 \<le> passed (state_at w a i) \<and> 0 \<le> failed (state_at w a i)
                 \<and> 0 \<le> warned (state_at w a i)"
    using mono [of 0 i] by (simp add: zero start_def)
  have summ: "\<exists>n. fst (main w a) = take n (fst (main w a)) @ summary a (state_at w a n)"
    if "snd (main w a) = None"
  proof -
    obtain t r where k: "check_kubeconfig w a = (t, r)" by (cases "check_kubeconfig w a")
    with that obtain u where r: "r = Inr u"
      by (cases r) (auto simp: main_def bindC_def emits_def)
    let ?body = "[Print [], Info [S ''=== Kubeconfig & API ==='']] @ t @ checks_after_kubeconfig w a"
    from k r have m: "fst (main w a) = ?body @ summary a (run ?body)"
      by (simp add: main_def bindC_def emits_def Let_def)
    then have "take (length ?body) (fst (main w a)) = ?body" by simp
    with m have "fst (main w a) = take (length ?body) (fst (main w a))
                   @ summary a (state_at w a (length ?body))"
      by (simp add: state_at_def)
    then show ?thesis ..
  qed
  from zero step mono [of i j] nonneg summ show ?thesis
    by (simp add: start_def)
qed

theorem counters_only_increase_witness:
  "failed (state_at world_down default_args 3) \<le> failed (state_at world_down default_args 50)
   \<and> 0 \<le> warned (state_at world_down default_args 50)
   \<and> (\<exists>n. fst (main world_down default_args) =
          take n (fst (main world_down default_args))
            @ summary default_args (state_at world_down default_args n))"
proof -
  have "\<not> isfile world_down (args_kubeconfig default_args)"
    by (simp add: world_down_def)
  then have "snd (check_kubeconfig world_down default_args) = Inr ()"
    by (simp add: check_kubeconfig_def emits_def)
  then have "snd (main world_down default_args) = None"
    by (cases "check_kubeconfig world_down default_args")
       (simp add: main_def bindC_def emits_def Let_def)
  with counters_only_increase [of world_down default_args 3 50]
  show ?thesis by simp
qed

section \<open>The structured query and the sections that use it\<close>

lemma str_in_or_str: "str_in err (p @ or_str err out)"
proof (cases "err = []")
  case True
  then show ?thesis by (simp add: str_in_def)
next
  case False
  then have "p @ or_str err out = p @ err @ []" by (simp add: or_str_def)
  then show ?thesis unfolding str_in_def sublist_def by blast
qed

lemma kubectl_json_cases:
  assumes "sh w (''KUBECONFIG='' @ quoted kc @ '' kubectl '' @ q @ '' -o json'') 40
             = (es, Inr (rc, out, err))"
  shows "kubectl_json w q kc =
           (if rc \<noteq> 0 then (es, Inl (RuntimeError (''kubectl '' @ q @ '' failed: '' @ or_str err out)))
            else (es, loads w out))"
  using assms by (simp add: kubectl_json_def bindC_def raise_def lift_def)

lemma check_nodes_aborts:
  "kubectl_json w ''get nodes'' (args_kubeconfig a) = (t, Inl e) \<Longrightarrow>
   check_nodes w a = t @ [Fail [S ''kubectl get nodes failed: '', E e], IncFailed]"
  by (simp add: check_nodes_def try_except_def bindC_def)

lemma check_core_pods_aborts:
  "kubectl_json w ''-n kube-system get pods'' (args_kubeconfig a) = (t, Inl e) \<Longrightarrow>
   check_core_pods w a = t @ [Fail [S ''Failed to read kube-system pods: '', E e], IncFailed]"
  by (simp add: check_core_pods_def try_except_def bindC_def)

lemma check_logging_aborts:
  "kubectl_json w ''-n logging get pods'' (args_kubeconfig a) = (t, Inl e) \<Longrightarrow>
   check_logging w a = t @ [Warn [S ''Loki/Promtail check error: '', E e], IncWarned]"
  by (simp add: check_logging_def try_except_def bindC_def)

lemma sh_world_down:
  "sh world_down cmd t = ([], Inr (1, [], ''connection refused''))"
proof -
  have "strip ''connection refused'' = ''connection refused''" "strip [] = []"
    by code_simp+
  then show ?thesis by (simp add: sh_def world_down_def ret_def)
qed

lemma sh_world_empty:
  "sh world_empty cmd t = ([], Inr (0, ''{}'', []))"
proof -
  have "strip (''{}'' @ [CHR 0x0A]) = ''{}''" "strip [] = []"
    by code_simp+
  then show ?thesis by (simp add: sh_def world_empty_def world_down_def ret_def)
qed

text \<open>
  Claim C9. When the command of \<^verbatim>\<open>kubectl_json\<close> returns a non-zero exit code, a
  \<^verbatim>\<open>RuntimeError\<close> is raised whose message ends with the captured standard error (with
  the standard output when the standard error is empty), so the captured error text is
  part of it; on exit code zero the result is \<^verbatim>\<open>json.loads\<close> of the captured output, the
  parsed value when it parses. An exception of \<^verbatim>\<open>kubectl_json\<close> ends the section that called
  it with one fail line and one increment of \<^verbatim>\<open>failed\<close> (nodes, core pods) or one warn line
  and one increment of \<^verbatim>\<open>warned\<close> (logging); and a run that has left the kubeconfig block
  goes through all the later sections and the summary, whatever the sections meet.
\<close>

theorem kubectl_json_aborts_its_section:
  "(sh w (''KUBECONFIG='' @ quoted kc @ '' kubectl '' @ q @ '' -o json'') 40 = (es, Inr (rc, out, err)) \<longrightarrow>
      (rc \<noteq> 0 \<longrightarrow>
         kubectl_json w q kc = (es, Inl (RuntimeError (''kubectl '' @ q @ '' failed: '' @ or_str err out)))
         \<and> str_in err (''kubectl '' @ q @ '' failed: '' @ or_str err out))
      \<and> (rc = 0 \<longrightarrow>
         kubectl_json w q kc = (es, loads w out)
         \<and> (json_loads w out = Some j \<longrightarrow> kubectl_json w q kc = (es, Inr j))))
   \<and> (kubectl_json w ''get nodes'' (args_kubeconfig a) = (t, Inl e) \<longrightarrow>
        check_nodes w a = t @ [Fail [S ''kubectl get nodes failed: '', E e], IncFailed])
   \<and> (kubectl_json w ''-n kube-system get pods'' (args_kubeconfig a) = (t, Inl e) \<longrightarrow>
        check_core_pods w a = t @ [Fail [S ''Failed to read kube-system pods: '', E e], IncFailed])
   \<and> (kubectl_json w ''-n logging get pods'' (args_kubeconfig a) = (t, Inl e) \<longrightarrow>
        check_logging w a = t @ [Warn [S ''Loki/Promtail check error: '', E e], IncWarned])
   \<and> (snd (check_kubeconfig w a) = Inr () \<longrightarrow>
        main w a =
          (let body = [Print [], Info [S ''=== Kubeconfig & API ==='']] @ fst (check_kubeconfig w a)
                        @ check_readyz w a
                        @ [Print [], Info [S ''=== Node health ==='']] @ check_nodes w a
                        @ [Print [], Info [S ''=== Core kube-system pods ==='']] @ check_core_pods w a
                        @ [Print [], Info [S ''=== Namespaces present ==='']] @ check_namespaces w a
                        @ [Print [], Info [S ''=== Argo CD ==='']] @ check_argocd w a
                        @ [Print [], Info [S ''=== Grafana / Prometheus (kube-prometheus-stack) ==='']]
                        @ check_monitoring w a
                        @ [Print [], Info [S ''=== Loki / Promtail ==='']] @ check_logging w a
                        @ [Print [], Info [S ''=== Demo app: whoami ==='']] @ check_whoami w a
                        @ [Print [], Info [S ''=== Optional DNS hints ==='']] @ check_dns w a
           in (body @ summary a (run body), None)))"
proof -
  have A: "sh w (''KUBECONFIG='' @ quoted kc @ '' kubectl '' @ q @ '' -o json'') 40 = (es, Inr (rc, out, err)) \<longrightarrow>
      (rc \<noteq> 0 \<longrightarrow>
         kubectl_json w q kc = (es, Inl (RuntimeError (''kubectl '' @ q @ '' failed: '' @ or_str err out)))
         \<and> str_in err (''kubectl '' @ q @ '' failed: '' @ or_str err out))
      \<and> (rc = 0 \<longrightarrow>
         kubectl_json w q kc = (es, loads w out)
         \<and> (json_loads w out = Some j \<longrightarrow> kubectl_json w q kc = (es, Inr j)))"
  proof
    assume h: "sh w (''KUBECONFIG='' @ quoted kc @ '' kubectl '' @ q @ '' -o json'') 40
                 = (es, Inr (rc, out, err))"
    note c = kubectl_json_cases [OF h]
    have s: "str_in err (''kubectl '' @ q @ '' failed: '' @ or_str err out)"
      using str_in_or_str [of err "''kubectl '' @ q @ '' failed: ''" out] by simp
    from c s show "(rc \<noteq> 0 \<longrightarrow>
         kubectl_json w q kc = (es, Inl (RuntimeError (''kubectl '' @ q @ '' failed: '' @ or_str err out)))
         \<and> str_in err (''kubectl '' @ q @ '' failed: '' @ or_str err out))
      \<and> (rc = 0 \<longrightarrow>
         kubectl_json w q kc = (es, loads w out)
         \<and> (json_loads w out = Some j \<longrightarrow> kubectl_json w q kc = (es, Inr j)))"
      by (simp add: loads_def)
  qed
  have B: "kubectl_json w ''get nodes'' (args_kubeconfig a) = (t, Inl e) \<longrightarrow>
        check_nodes w a = t @ [Fail [S ''kubectl get nodes failed: '', E e], IncFailed]"
    using check_nodes_aborts [of w a t e] by (rule impI)
  have C: "kubectl_json w ''-n kube-system get pods'' (args_kubeconfig a) = (t, Inl e) \<longrightarrow>
        check_core_pods w a = t @ [Fail [S ''Failed to read kube-system pods: '', E e], IncFailed]"
    using check_core_pods_aborts [of w a t e] by (rule impI)
  have D: "kubectl_json w ''-n logging get pods'' (args_kubeconfig a) = (t, Inl e) \<longrightarrow>
        check_logging w a = t @ [Warn [S ''Loki/Promtail check error: '', E e], IncWarned]"
    using check_logging_aborts [of w a t e] by (rule impI)
  have E: "snd (check_kubeconfig w a) = Inr () \<longrightarrow>
        main w a =
          (let body = [Print [], Info [S ''=== Kubeconfig & API ==='']] @ fst (check_kubeconfig w a)
                        @ check_readyz w a
                        @ [Print [], Info [S ''=== Node health ==='']] @ check_nodes w a
                        @ [Print [], Info [S ''=== Core kube-system pods ==='']] @ check_core_pods w a
                        @ [Print [], Info [S ''=== Namespaces present ==='']] @ check_namespaces w a
                        @ [Print [], Info [S ''=== Argo CD ==='']] @ check_argocd w a
                        @ [Print [], Info [S ''=== Grafana / Prometheus (kube-prometheus-stack) ==='']]
                        @ check_monitoring w a
                        @ [Print [], Info [S ''=== Loki / Promtail ==='']] @ check_logging w a
                        @ [Print [], Info [S ''=== Demo app: whoami ==='']] @ check_whoami w a
                        @ [Print [], Info [S ''=== Optional DNS hints ==='']] @ check_dns w a
           in (body @ summary a (run body), None))"
  proof
    assume "snd (check_kubeconfig w a) = Inr ()"
    from main_completes [OF this] show "main w a =
          (let body = [Print [], Info [S ''=== Kubeconfig & API ==='']] @ fst (check_kubeconfig w a)
                        @ check_readyz w a
                        @ [Print [], Info [S ''=== Node health ==='']] @ check_nodes w a
                        @ [Print [], Info [S ''=== Core kube-system pods ==='']] @ check_core_pods w a
                        @ [Print [], Info [S ''=== Namespaces present ==='']] @ check_namespaces w a
                        @ [Print [], Info [S ''=== Argo CD ==='']] @ check_argocd w a
                        @ [Print [], Info [S ''=== Grafana / Prometheus (kube-prometheus-stack) ==='']]
                        @ check_monitoring w a
                        @ [Print [], Info [S ''=== Loki / Promtail ==='']] @ check_logging w a
                        @ [Print [], Info [S ''=== Demo app: whoami ==='']] @ check_whoami w a
                        @ [Print [], Info [S ''=== Optional DNS hints ==='']] @ check_dns w a
           in (body @ summary a (run body), None))"
      by (simp add: checks_after_kubeconfig_def Let_def)
  qed
  show ?thesis
    by (rule conjI [OF A conjI [OF B conjI [OF C conjI [OF D E]]]])
qed

theorem kubectl_json_aborts_its_section_witness:
  "kubectl_json world_down ''get nodes'' ''/etc/rancher/k3s/k3s.yaml''
     = ([], Inl (RuntimeError ''kubectl get nodes failed: connection refused''))
   \<and> check_nodes world_down default_args =
       [Fail [S ''kubectl get nodes failed: '',
              E (RuntimeError ''kubectl get nodes failed: connection refused'')], IncFailed]
   \<and> check_logging world_down default_args =
       [Warn [S ''Loki/Promtail check error: '',
              E (RuntimeError ''kubectl -n logging get pods failed: connection refused'')], IncWarned]
   \<and> kubectl_json world_empty ''get nodes'' ''/etc/rancher/k3s/k3s.yaml'' = ([], Inr (JObj []))
   \<and> snd (main world_down default_args) = None"
proof -
  let ?kc = "''/etc/rancher/k3s/k3s.yaml''"
  have kc: "args_kubeconfig default_args = ?kc" by (simp add: default_args_def)
  have o: "or_str ''connection refused'' [] = ''connection refused''" by (simp add: or_str_def)
  have 1: "kubectl_json world_down ''get nodes'' ?kc
     = ([], Inl (RuntimeError ''kubectl get nodes failed: connection refused''))"
    using kubectl_json_aborts_its_section [of world_down ?kc "''get nodes''" "[]" 1 "[]"
        "''connection refused''"]
      sh_world_down [of "''KUBECONFIG='' @ quoted ?kc @ '' kubectl '' @ ''get nodes'' @ '' -o json''" 40]
    by (simp add: o)
  have 2: "check_nodes world_down default_args =
       [Fail [S ''kubectl get nodes failed: '',
              E (RuntimeError ''kubectl get nodes failed: connection refused'')], IncFailed]"
    using kubectl_json_aborts_its_section [where w = world_down and a = default_args and t = "[]"
        and e = "RuntimeError ''kubectl get nodes failed: connection refused''"] 1 kc
    by simp
  have 3: "kubectl_json world_down ''-n logging get pods'' ?kc
     = ([], Inl (RuntimeError ''kubectl -n logging get pods failed: connection refused''))"
    using kubectl_json_aborts_its_section [of world_down ?kc "''-n logging get pods''" "[]" 1 "[]"
        "''connection refused''"]
      sh_world_down [of "''KUBECONFIG='' @ quoted ?kc @ '' kubectl '' @ ''-n logging get pods'' @ '' -o json''" 40]
    by (simp add: o)
  have 4: "check_logging world_down default_args =
       [Warn [S ''Loki/Promtail check error: '',
              E (RuntimeError ''kubectl -n logging get pods failed: connection refused'')], IncWarned]"
    using kubectl_json_aborts_its_section [where w = world_down and a = default_args and t = "[]"
        and e = "RuntimeError ''kubectl -n logging get pods failed: connection refused''"] 3 kc
    by simp
  have j: "json_loads world_empty ''{}'' = Some (JObj [])"
    by (simp add: world_empty_def)
  have 5: "kubectl_json world_empty ''get nodes'' ?kc = ([], Inr (JObj []))"
  proof -
    from kubectl_json_aborts_its_section [of world_empty ?kc "''get nodes''" "[]" 0 "''{}''" "[]"
        "JObj []" default_args "[]" TypeError]
    have "sh world_empty (''KUBECONFIG='' @ quoted ?kc @ '' kubectl '' @ ''get nodes'' @ '' -o json'') 40
            = ([], Inr (0, ''{}'', [])) \<longrightarrow>
          json_loads world_empty ''{}'' = Some (JObj []) \<longrightarrow>
          kubectl_json world_empty ''get nodes'' ?kc = ([], Inr (JObj []))"
      by blast
    with sh_world_empty j show ?thesis by blast
  qed
  have "\<not> isfile world_down (args_kubeconfig default_args)"
    by (simp add: world_down_def)
  then have "snd (check_kubeconfig world_down default_args) = Inr ()"
    by (simp add: check_kubeconfig_missing)
  then have 6: "snd (main world_down default_args) = None"
    using kubectl_json_aborts_its_section [where w = world_down and a = default_args]
    by (simp add: Let_def)
  from 1 2 3 4 5 6 show ?thesis by simp
qed

end
